theory Spec2Isabelle
  imports Main "HOL-Library.Sublist"
begin

section \<open>Strings of the host language\<close>

text \<open>
  A JavaScript string is a sequence of code units. The model keeps the code units below
  256 (the introspection tools print ASCII), one \<^typ>\<open>char\<close> each. File contents are
  byte sequences, one \<^typ>\<open>char\<close> per byte.
\<close>

type_synonym path = string
type_synonym bytes = "char list"

text \<open>
  \<^verbatim>\<open>\s\<close> of a regular expression and \<^verbatim>\<open>String.prototype.trim\<close> share one class: white
  space and line terminators (TAB, LF, VT, FF, CR, SP, NBSP below 256).
\<close>

definition is_space :: "char \<Rightarrow> bool" where
  "is_space c \<longleftrightarrow>
     c = CHR 0x09 \<or> c = CHR 0x0A \<or> c = CHR 0x0B \<or> c = CHR 0x0C \<or> c = CHR 0x0D \<or>
     c = CHR 0x20 \<or> c = CHR 0xA0"

text \<open>The line terminators after which \<^verbatim>\<open>^\<close> matches under the \<^verbatim>\<open>m\<close> flag (LF, CR).\<close>

definition is_line_terminator :: "char \<Rightarrow> bool" where
  "is_line_terminator c \<longleftrightarrow> c = CHR 0x0A \<or> c = CHR 0x0D"

text \<open>\<^verbatim>\<open>\w\<close>: the letters, the digits and the underscore.\<close>

definition is_word :: "char \<Rightarrow> bool" where
  "is_word c \<longleftrightarrow>
     (let n = (of_char c :: nat) in
        (48 \<le> n \<and> n \<le> 57) \<or> (65 \<le> n \<and> n \<le> 90) \<or> n = 95 \<or> (97 \<le> n \<and> n \<le> 122))"

text \<open>\<^verbatim>\<open>s.trim()\<close>\<close>

definition trim :: "string \<Rightarrow> string" where
  "trim s = rev (dropWhile is_space (rev (dropWhile is_space s)))"

text \<open>\<^verbatim>\<open>s.includes(pat)\<close>: \<open>pat\<close> occurs in \<open>s\<close> as a contiguous run.\<close>

fun includes_str :: "string \<Rightarrow> string \<Rightarrow> bool" where
  "includes_str [] pat = (pat = [])"
| "includes_str (c # cs) pat = (prefix pat (c # cs) \<or> includes_str cs pat)"

text \<open>
  \<^verbatim>\<open>s.split(sep)\<close> for a string separator: the pieces between the occurrences of
  \<open>sep\<close>, found from left to right without overlap; an empty separator gives the code units.
\<close>

function split_at :: "string \<Rightarrow> string \<Rightarrow> string \<Rightarrow> string list" where
  "split_at sep acc [] = [rev acc]"
| "split_at sep acc (c # cs) =
     (if sep \<noteq> [] \<and> prefix sep (c # cs)
      then rev acc # split_at sep [] (drop (length sep) (c # cs))
      else split_at sep (c # acc) cs)"
  by pat_completeness auto
termination
  by (relation "measure (\<lambda>(sep, acc, s). length s)") (auto simp: neq_Nil_conv)

definition split_str :: "string \<Rightarrow> string \<Rightarrow> string list" where
  "split_str s sep = (if sep = [] then map (\<lambda>c. [c]) s else split_at sep [] s)"

text \<open>
  One attempt of the regular expression \<^verbatim>\<open>\s*\w+:\<close> at the head of a string (the
  anchor \<^verbatim>\<open>^\<close> is checked by the caller). The three classes are disjoint from what
  follows them, so the greedy reading is the only one: white space, then a non-empty run
  of word characters, then a colon. The result is the text after the match.
\<close>

definition match_label :: "string \<Rightarrow> string option" where
  "match_label s =
     (let r = dropWhile is_word (dropWhile is_space s)
      in if takeWhile is_word (dropWhile is_space s) \<noteq> [] \<and> r \<noteq> [] \<and> hd r = CHR '':''
         then Some (tl r) else None)"

text \<open>
  \<^verbatim>\<open>s.split(/^\s*\w+:/m)\<close>, as the language defines splitting by a regular expression: the
  expression is tried at each position from the left; where it fails the position moves
  on by one code unit, where it matches the piece before the match is emitted and the scan
  resumes after the match. \<open>bol\<close> says that the position is at the start of a line (the
  start of the text, or just after a line terminator); \<open>acc\<close> is the piece being
  collected, reversed.
\<close>

function split_label :: "bool \<Rightarrow> string \<Rightarrow> string \<Rightarrow> string list" where
  "split_label bol acc [] = [rev acc]"
| "split_label bol acc (c # cs) =
     (case (if bol then match_label (c # cs) else None) of
        Some rest \<Rightarrow> rev acc # split_label False [] rest
      | None \<Rightarrow> split_label (is_line_terminator c) (c # acc) cs)"
  by pat_completeness auto
termination
proof (relation "measure (\<lambda>(bol, acc, s). length s)", goal_cases)
  case 1
  show ?case by simp
next
  case (2 bol acc c cs)
  show ?case by simp
next
  case (3 bol acc c cs rest)
  let ?d = "dropWhile is_word (dropWhile is_space (c # cs))"
  from 3 have "match_label (c # cs) = Some rest"
    by (simp split: if_splits)
  then have ne: "?d \<noteq> []" and rest: "rest = tl ?d"
    by (auto simp: match_label_def Let_def split: if_splits)
  have "length ?d \<le> length (c # cs)"
    by (meson length_dropWhile_le le_trans)
  moreover from ne have "length (tl ?d) < length ?d"
    by (cases ?d) auto
  ultimately show ?case using rest by simp
qed

definition split_sections :: "string \<Rightarrow> string list" where
  "split_sections s = split_label True [] s"

section \<open>Numbers in template literals\<close>

fun show_nat :: "nat \<Rightarrow> string" where
  "show_nat n =
     (if n < 10 then [char_of (48 + n)]
      else show_nat (n div 10) @ [char_of (48 + n mod 10)])"

declare show_nat.simps [simp del]

text \<open>The decimal digits of an integer, with a minus sign when it is negative.\<close>

definition show_int :: "int \<Rightarrow> string" where
  "show_int i = (if i < 0 then CHR ''-'' # show_nat (nat (- i)) else show_nat (nat i))"

text \<open>\<^verbatim>\<open>buffer.toString("base64")\<close>: three bytes become four characters, padded with \<open>=\<close>.\<close>

definition base64_alphabet :: string where
  "base64_alphabet = ''ABCDEFGHIJKLMNOPQRSTUVWXYZabcdefghijklmnopqrstuvwxyz0123456789+/''"

definition sextet :: "nat \<Rightarrow> char" where
  "sextet n = base64_alphabet ! n"

fun base64_of :: "nat list \<Rightarrow> string" where
  "base64_of (a # b # c # rest) =
     [sextet (a div 4), sextet ((a mod 4) * 16 + b div 16),
      sextet ((b mod 16) * 4 + c div 64), sextet (c mod 64)] @ base64_of rest"
| "base64_of [a, b] =
     [sextet (a div 4), sextet ((a mod 4) * 16 + b div 16), sextet ((b mod 16) * 4), CHR ''='']"
| "base64_of [a] = [sextet (a div 4), sextet ((a mod 4) * 16), CHR ''='', CHR ''='']"
| "base64_of [] = []"

definition toString_base64 :: "bytes \<Rightarrow> string" where
  "toString_base64 data = base64_of (map of_char data)"

section \<open>The world outside the program\<close>

text \<open>
  Every \<^verbatim>\<open>Error\<close> the program meets or throws is an object with a message; nothing
  else is thrown.
\<close>

datatype error = Error (message: string)

text \<open>
  The \<^verbatim>\<open>timeout\<close> option of \<^verbatim>\<open>child_process.exec\<close>: the child is killed when it runs
  longer than a positive number of milliseconds; \<open>0\<close>, the default, never kills it.
\<close>

datatype limit = Unbounded | Within nat

definition exec_limit :: "nat \<Rightarrow> limit" where
  "exec_limit ms = (if ms = 0 then Unbounded else Within ms)"

text \<open>The argument of \<^verbatim>\<open>sharp(...).resize(width, height, {fit, background})\<close>.\<close>

datatype fit = Contain | Cover | Fill | Inside | Outside

record colour =
  red :: nat
  green :: nat
  blue :: nat
  alpha :: nat

record resize_request =
  canvas_width :: nat
  canvas_height :: nat
  canvas_fit :: fit
  canvas_background :: colour

text \<open>What the program does to the outside, in the order it does it.\<close>

datatype event =
    Exec string limit
  | Resize path resize_request path
  | ReadFile path
  | Unlink path
  | ConsoleWarn string
  | ConsoleError string error

record world =
  files :: "path \<rightharpoonup> bytes"
  now :: nat
  events :: "event list"

text \<open>
  The host: its platform tag, its temporary directory, what a child process does (from
  the command, the limit, the files and the time: an error message or the standard output,
  the files and the time afterwards) and what the image library makes of a resize request
  (an error message or the bytes of the new image). The last field is what the runtime
  prints for a number beyond the safe integers (see \<open>number_text\<close> below).
\<close>

record host =
  platform :: string
  tmpdir :: string
  child :: "string \<Rightarrow> limit \<Rightarrow> (path \<rightharpoonup> bytes) \<Rightarrow> nat \<Rightarrow> (string + string) \<times> (path \<rightharpoonup> bytes) \<times> nat"
  resize_image :: "resize_request \<Rightarrow> bytes \<Rightarrow> string + bytes"
  large_number_text :: "int \<Rightarrow> string"

text \<open>
  A number in a template literal. A safe integer, one of absolute value at most 2^53 - 1,
  prints as its decimal digits. Beyond that the runtime prints the shortest digits that
  read back as the same number, padded with zeros, and in exponent form from 10^21 on
  (\<^verbatim>\<open>1e+21\<close>): that text is not computed here, it is taken from the host.
\<close>

definition safe_integer :: "int \<Rightarrow> bool" where
  "safe_integer i \<longleftrightarrow> - 9007199254740991 \<le> i \<and> i \<le> 9007199254740991"

definition number_text :: "host \<Rightarrow> int \<Rightarrow> string" where
  "number_text h i = (if safe_integer i then show_int i else large_number_text h i)"

text \<open>
  An asynchronous computation that is awaited at once: it runs on the world and either
  throws (\<open>Inl\<close>) or returns a value (\<open>Inr\<close>).
\<close>

type_synonym 'a io = "world \<Rightarrow> (error + 'a) \<times> world"

definition io_return :: "'a \<Rightarrow> 'a io" where
  "io_return x w = (Inr x, w)"

definition io_throw :: "error \<Rightarrow> 'a io" where
  "io_throw e w = (Inl e, w)"

definition io_bind :: "'a io \<Rightarrow> ('a \<Rightarrow> 'b io) \<Rightarrow> 'b io" where
  "io_bind m f w = (case m w of (Inl e, w') \<Rightarrow> (Inl e, w') | (Inr x, w') \<Rightarrow> f x w')"

definition io_catch :: "'a io \<Rightarrow> (error \<Rightarrow> 'a io) \<Rightarrow> 'a io" where
  "io_catch m handler w = (case m w of (Inl e, w') \<Rightarrow> handler e w' | (Inr x, w') \<Rightarrow> (Inr x, w'))"

definition emit :: "event \<Rightarrow> unit io" where
  "emit ev w = (Inr (), w\<lparr>events := events w @ [ev]\<rparr>)"

definition date_now :: "nat io" where
  "date_now w = (Inr (now w), w)"

text \<open>\<^verbatim>\<open>await execAsync(cmd, { timeout })\<close>; the promise resolves to the standard output.\<close>

definition execAsync :: "host \<Rightarrow> string \<Rightarrow> nat \<Rightarrow> string io" where
  "execAsync h cmd ms w =
     (case child h cmd (exec_limit ms) (files w) (now w) of
        (res, fs, t) \<Rightarrow>
          (case res of Inl msg \<Rightarrow> Inl (Error msg) | Inr out \<Rightarrow> Inr out,
           w\<lparr>files := fs, now := t, events := events w @ [Exec cmd (exec_limit ms)]\<rparr>))"

text \<open>
  \<^verbatim>\<open>fs.promises.readFile\<close> and \<^verbatim>\<open>fs.promises.unlink\<close> reject when the file is missing;
  the model has no other rejection of the file system (no permissions, no full disk).
\<close>

definition enoent :: "string \<Rightarrow> path \<Rightarrow> error" where
  "enoent syscall p =
     Error (''ENOENT: no such file or directory, '' @ syscall @ '' '' @ [CHR 0x27] @ p @ [CHR 0x27])"

definition readFile :: "path \<Rightarrow> bytes io" where
  "readFile p w =
     (case files w p of
        None \<Rightarrow> Inl (enoent ''open'' p)
      | Some data \<Rightarrow> Inr data,
      w\<lparr>events := events w @ [ReadFile p]\<rparr>)"

definition unlink :: "path \<Rightarrow> unit io" where
  "unlink p w =
     (case files w p of
        None \<Rightarrow> (Inl (enoent ''unlink'' p), w\<lparr>events := events w @ [Unlink p]\<rparr>)
      | Some data \<Rightarrow> (Inr (), w\<lparr>files := (files w)(p := None), events := events w @ [Unlink p]\<rparr>))"

text \<open>\<^verbatim>\<open>await sharp(src).resize(...).toFile(dst)\<close>\<close>

definition sharp_resize_toFile :: "host \<Rightarrow> path \<Rightarrow> resize_request \<Rightarrow> path \<Rightarrow> unit io" where
  "sharp_resize_toFile h src req dst w =
     (case files w src of
        None \<Rightarrow> (Inl (Error (''Input file is missing: '' @ src)), w\<lparr>events := events w @ [Resize src req dst]\<rparr>)
      | Some data \<Rightarrow>
          (case resize_image h req data of
             Inl msg \<Rightarrow> (Inl (Error msg), w\<lparr>events := events w @ [Resize src req dst]\<rparr>)
           | Inr img \<Rightarrow> (Inr (), w\<lparr>files := (files w)(dst \<mapsto> img), events := events w @ [Resize src req dst]\<rparr>)))"

text \<open>
  \<^verbatim>\<open>path.join(dir, name)\<close> with the separator of the platform, for a directory that needs
  no normalisation (as \<^verbatim>\<open>os.tmpdir()\<close> gives it).
\<close>

definition path_join :: "host \<Rightarrow> string \<Rightarrow> string \<Rightarrow> path" where
  "path_join h dir name = dir @ (if platform h = ''win32'' then [CHR 0x5C] else ''/'') @ name"

section \<open>The display enumerator\<close>

record screen =
  screen_id :: int
  description :: string

definition main_display :: screen where
  "main_display = \<lparr>screen_id = 1, description = ''Main Display''\<rparr>"

definition primary_screen :: screen where
  "primary_screen =
     \<lparr>screen_id = 0,
      description = ''Primary Screen (multi-screen selection not supported yet)''\<rparr>"

text \<open>\<^verbatim>\<open>line.split(":")[1]?.trim() || dflt\<close>\<close>

definition colon_field :: "string \<Rightarrow> string \<Rightarrow> string" where
  "colon_field line dflt =
     (case split_str line '':'' of
        a # b # rest \<Rightarrow> (if trim b = [] then dflt else trim b)
      | _ \<Rightarrow> dflt)"

text \<open>The three variables the loop over the lines of a section assigns.\<close>

record display_info =
  displayName :: string
  resolution :: string
  displayType :: string

definition scan_line :: "display_info \<Rightarrow> string \<Rightarrow> display_info" where
  "scan_line info line =
     (if includes_str line ''Display Type:'' \<or> includes_str line ''Type:''
      then info\<lparr>displayType := colon_field line ''Unknown''\<rparr>
      else if includes_str line ''Resolution:''
      then info\<lparr>resolution := colon_field line []\<rparr>
      else if includes_str line ''Name:''
      then info\<lparr>displayName := colon_field line []\<rparr>
      else info)"

text \<open>The loop over the lines: each line that carries a label assigns its variable again.\<close>

definition scan_lines :: "string list \<Rightarrow> display_info" where
  "scan_lines lines =
     foldl scan_line \<lparr>displayName = [], resolution = [], displayType = []\<rparr> lines"

definition scan_section :: "string \<Rightarrow> display_info" where
  "scan_section section = scan_lines (map trim (split_str section [CHR 0x0A]))"

definition describe_section :: "string \<Rightarrow> string" where
  "describe_section section =
     (let info = scan_section section;
          description =
            (if displayName info \<noteq> [] then displayName info
             else if displayType info \<noteq> [] then displayType info
             else ''Display'')
      in if resolution info \<noteq> [] then description @ '' ('' @ resolution info @ '')''
         else description)"

text \<open>The descriptors of the sections, numbered from 1 in section order.\<close>

definition section_displays :: "string list \<Rightarrow> screen list" where
  "section_displays displaySections =
     map (\<lambda>(i, section). \<lparr>screen_id = int i + 1, description = describe_section section\<rparr>)
       (enumerate 0 displaySections)"

text \<open>The descriptors rebuilt from the resolution lines of the second command.\<close>

definition resolution_displays :: "string list \<Rightarrow> screen list" where
  "resolution_displays resolutions =
     map (\<lambda>(i, line).
            \<lparr>screen_id = int i + 1,
             description =
               (if i = 0 then ''Main Display ('' @ colon_field line [] @ '')''
                else ''External Display '' @ show_nat i @ '' ('' @ colon_field line [] @ '')'')\<rparr>)
       (enumerate 0 resolutions)"

definition is_display_section :: "string \<Rightarrow> bool" where
  "is_display_section section \<longleftrightarrow>
     includes_str section ''Display Type'' \<or> includes_str section ''Resolution'' \<or>
     includes_str section ''Type:''"

text \<open>The second look, taken when at most one display was found; its own handler keeps the list.\<close>

definition rescan_resolutions :: "host \<Rightarrow> screen list \<Rightarrow> screen list io" where
  "rescan_resolutions h displays =
     io_catch
       (io_bind (execAsync h ''system_profiler SPDisplaysDataType | grep Resolution'' 0)
          (\<lambda>screenInfo.
             let resolutions =
                   filter (\<lambda>line. includes_str line ''Resolution'') (split_str screenInfo [CHR 0x0A])
             in if length resolutions > 1 then io_return (resolution_displays resolutions)
                else io_return displays))
       (\<lambda>err. io_bind (emit (ConsoleError ''Error getting alternative screen info:'' err))
          (\<lambda>_. io_return displays))"

text \<open>The branch of \<^verbatim>\<open>getAvailableScreens\<close> for the platform \<^verbatim>\<open>darwin\<close>.\<close>

definition darwin_screens :: "host \<Rightarrow> screen list io" where
  "darwin_screens h =
     io_bind (execAsync h ''system_profiler SPDisplaysDataType'' 0)
       (\<lambda>stdout.
          let displayData =
                filter (\<lambda>section. length (trim section) > 0) (split_str stdout ''Graphics/Displays:'')
          in if length displayData = 0 then io_return [main_display]
             else
               let displaySections = filter is_display_section (split_sections stdout)
               in if length displaySections = 0 then io_return [main_display]
                  else
                    let displays0 = section_displays displaySections;
                        displays = (if length displays0 = 0 then displays0 @ [main_display] else displays0)
                    in if length displays \<le> 1 then rescan_resolutions h displays
                       else io_return displays)"

definition unsupported_platform :: "string \<Rightarrow> error" where
  "unsupported_platform tag = Error (''Unsupported platform: '' @ tag)"

text \<open>The body of the \<^verbatim>\<open>try\<close> block of \<^verbatim>\<open>getAvailableScreens\<close>.\<close>

definition getAvailableScreens_body :: "host \<Rightarrow> screen list io" where
  "getAvailableScreens_body h =
     (if platform h = ''darwin'' then darwin_screens h
      else if platform h = ''win32'' then io_return [primary_screen]
      else if platform h = ''linux'' then io_return [primary_screen]
      else io_throw (unsupported_platform (platform h)))"

definition getAvailableScreens :: "host \<Rightarrow> screen list io" where
  "getAvailableScreens h =
     io_catch (getAvailableScreens_body h)
       (\<lambda>err. io_bind (emit (ConsoleError ''Error listing screens:'' err))
          (\<lambda>_. io_return [main_display]))"

section \<open>The capture engine\<close>

text \<open>
  The options of \<^verbatim>\<open>takeScreenshot\<close>, each of them optional. The number of a screen is kept
  as an integer and the timeout as a natural number of milliseconds: fractions, negative
  timeouts and \<^verbatim>\<open>NaN\<close> are outside the model.
\<close>

record options =
  width :: "int option"
  height :: "int option"
  fullPage :: "bool option"
  waitForSelector :: "string option"
  timeout :: "nat option"
  screenId :: "int option"

definition dquote :: string where
  "dquote = [CHR 0x22]"

definition squote :: string where
  "squote = [CHR 0x27]"

text \<open>The choice of the command, by platform (the chain of tests on \<^verbatim>\<open>os.platform()\<close>).\<close>

definition capture_command :: "host \<Rightarrow> int \<Rightarrow> path \<Rightarrow> string io" where
  "capture_command h sid screenshotPath =
     (if platform h = ''darwin'' then
        io_bind (getAvailableScreens h)
          (\<lambda>screens.
             let displayExists = list_ex (\<lambda>s. screen_id s = sid) screens
             in if displayExists \<or> sid = 1
                then io_return
                       (''screencapture -D '' @ number_text h sid @ '' -x '' @ dquote @ screenshotPath @ dquote)
                else io_bind
                       (emit (ConsoleWarn (''Display ID '' @ number_text h sid @
                                '' not found, defaulting to main display'')))
                       (\<lambda>_. io_return (''screencapture -x '' @ dquote @ screenshotPath @ dquote)))
      else if platform h = ''win32'' then
        io_return
          (''powershell -command '' @ dquote @
           ''Add-Type -AssemblyName System.Windows.Forms; '' @
           ''[System.Windows.Forms.SendKeys]::SendWait('' @ squote @ ''{PRTSC}'' @ squote @ ''); '' @
           ''Start-Sleep -Milliseconds 500; '' @
           ''$img = [System.Windows.Forms.Clipboard]::GetImage(); '' @
           ''$img.Save('' @ squote @ screenshotPath @ squote @ '')'' @ dquote)
      else if platform h = ''linux'' then
        io_return (''import -window root '' @ dquote @ screenshotPath @ dquote)
      else io_throw (unsupported_platform (platform h)))"

definition mobile_canvas :: resize_request where
  "mobile_canvas =
     \<lparr>canvas_width = 819, canvas_height = 1456, canvas_fit = Contain,
      canvas_background = \<lparr>red = 255, green = 255, blue = 255, alpha = 1\<rparr>\<rparr>"

text \<open>\<^verbatim>\<open>options.timeout || 0\<close>\<close>

definition timeout_or_zero :: "options \<Rightarrow> nat" where
  "timeout_or_zero opts = (case timeout opts of None \<Rightarrow> 0 | Some ms \<Rightarrow> (if ms = 0 then 0 else ms))"

text \<open>
  What follows the capture command: for screen 2 the resize onto the canvas, then reading,
  encoding and removing the final file.
\<close>

definition post_process :: "host \<Rightarrow> int \<Rightarrow> string \<Rightarrow> path \<Rightarrow> string io" where
  "post_process h sid tmpDir screenshotPath =
     (if sid = 2 then
        io_bind date_now
          (\<lambda>t1.
             let resizedPath = path_join h tmpDir (''screenshot-resized-'' @ show_nat t1 @ ''.png'')
             in io_bind (sharp_resize_toFile h screenshotPath mobile_canvas resizedPath)
               (\<lambda>_. io_bind (unlink screenshotPath)
               (\<lambda>_. io_bind (readFile resizedPath)
               (\<lambda>screenshotData. io_bind (unlink resizedPath)
               (\<lambda>_. io_return (toString_base64 screenshotData))))))
      else
        io_bind (readFile screenshotPath)
          (\<lambda>screenshotData. io_bind (unlink screenshotPath)
          (\<lambda>_. io_return (toString_base64 screenshotData))))"

text \<open>
  The temporary path of the capture, named after the time of the call. \<^verbatim>\<open>Date.now()\<close> is
  a time value, at most 8.64e15 and so a safe integer: it prints as its digits.
\<close>

definition screenshot_path :: "host \<Rightarrow> nat \<Rightarrow> path" where
  "screenshot_path h t0 = path_join h (tmpdir h) (''screenshot-'' @ show_nat t0 @ ''.png'')"

definition requested_screen :: "options \<Rightarrow> int" where
  "requested_screen opts = (case screenId opts of Some n \<Rightarrow> n | None \<Rightarrow> 1)"

text \<open>The body of the \<^verbatim>\<open>try\<close> block of \<^verbatim>\<open>takeScreenshot\<close>.\<close>

definition takeScreenshot_body :: "host \<Rightarrow> string \<Rightarrow> options \<Rightarrow> string io" where
  "takeScreenshot_body h url opts =
     (let sid = requested_screen opts
      in io_bind date_now
        (\<lambda>t0.
           let screenshotPath = screenshot_path h t0
           in io_bind (capture_command h sid screenshotPath)
             (\<lambda>cmd. io_bind (execAsync h cmd (timeout_or_zero opts))
             (\<lambda>_. post_process h sid (tmpdir h) screenshotPath))))"

definition takeScreenshot :: "host \<Rightarrow> string \<Rightarrow> options \<Rightarrow> string io" where
  "takeScreenshot h url opts =
     io_catch (takeScreenshot_body h url opts)
       (\<lambda>err. io_bind (emit (ConsoleError ''Error taking screenshot:'' err))
          (\<lambda>_. io_throw (Error (''Failed to capture screenshot: '' @ message err))))"

section \<open>Notions used to state the properties\<close>

text \<open>A list of descriptors numbered 1, 2, ... and not empty.\<close>

definition numbered_from_one :: "screen list \<Rightarrow> bool" where
  "numbered_from_one ds \<longleftrightarrow> ds \<noteq> [] \<and> map screen_id ds = map int [1..<Suc (length ds)]"

text \<open>The two filtered lists the \<^verbatim>\<open>darwin\<close> branch computes from the output of the first command.\<close>

definition nonblank_sections :: "string \<Rightarrow> string list" where
  "nonblank_sections stdout =
     filter (\<lambda>section. length (trim section) > 0) (split_str stdout ''Graphics/Displays:'')"

definition display_sections :: "string \<Rightarrow> string list" where
  "display_sections stdout = filter is_display_section (split_sections stdout)"

text \<open>
  A world with no files and no history, and a host for the examples: its child processes
  print the given answers to the two introspection commands, and any other command writes
  an image to the path it names between double quotes. The examples ask for safe integers
  only, so what this host prints for larger numbers is never looked at.
\<close>

definition idle_world :: world where
  "idle_world = \<lparr>files = Map.empty, now = 0, events = []\<rparr>"

definition quoted_path :: "string \<Rightarrow> path" where
  "quoted_path cmd =
     takeWhile (\<lambda>c. c \<noteq> CHR 0x22) (drop 1 (dropWhile (\<lambda>c. c \<noteq> CHR 0x22) cmd))"

definition demo_host ::
  "string \<Rightarrow> (string + string) \<Rightarrow> (string + string) \<Rightarrow> (bytes \<Rightarrow> string + bytes) \<Rightarrow> host" where
  "demo_host tag profile grepped resized =
     \<lparr>platform = tag, tmpdir = ''/tmp'',
      child = (\<lambda>cmd lim fs t.
        if cmd = ''system_profiler SPDisplaysDataType'' then (profile, fs, t)
        else if cmd = ''system_profiler SPDisplaysDataType | grep Resolution'' then (grepped, fs, t)
        else (Inr [], fs(quoted_path cmd \<mapsto> ''PNG''), t + 7)),
      resize_image = (\<lambda>req. resized),
      large_number_text = show_int\<rparr>"

text \<open>Options with every field absent.\<close>

definition plain_options :: options where
  "plain_options =
     \<lparr>width = None, height = None, fullPage = None, waitForSelector = None,
      timeout = None, screenId = None\<rparr>"

text \<open>
  The tests of the loop over the lines, as the chain of conditions orders them: a line that
  carries the type label counts for the type only, and so on.
\<close>

definition is_type_line :: "string \<Rightarrow> bool" where
  "is_type_line line \<longleftrightarrow> includes_str line ''Display Type:'' \<or> includes_str line ''Type:''"

definition is_resolution_line :: "string \<Rightarrow> bool" where
  "is_resolution_line line \<longleftrightarrow> \<not> is_type_line line \<and> includes_str line ''Resolution:''"

definition is_name_line :: "string \<Rightarrow> bool" where
  "is_name_line line \<longleftrightarrow>
     \<not> is_type_line line \<and> \<not> includes_str line ''Resolution:'' \<and> includes_str line ''Name:''"

text \<open>The two introspection commands.\<close>

definition profiler_command :: string where
  "profiler_command = ''system_profiler SPDisplaysDataType''"

definition rescan_command :: string where
  "rescan_command = ''system_profiler SPDisplaysDataType | grep Resolution''"

text \<open>
  A computation that only appends events, each of them satisfying \<open>P\<close>, to the history.
\<close>

definition appends_only :: "(event \<Rightarrow> bool) \<Rightarrow> 'a io \<Rightarrow> bool" where
  "appends_only P m \<longleftrightarrow> (\<forall>w. \<exists>es. events (snd (m w)) = events w @ es \<and> list_all P es)"

definition is_resize :: "event \<Rightarrow> bool" where
  "is_resize ev = (case ev of Resize src req dst \<Rightarrow> True | _ \<Rightarrow> False)"

text \<open>The events of a call: those of the world after it that the world before it had not.\<close>

definition new_events :: "world \<Rightarrow> world \<Rightarrow> event list" where
  "new_events w w' = drop (length (events w)) (events w')"


text \<open>The handler of \<^verbatim>\<open>takeScreenshot\<close>, by name.\<close>

definition rethrow_capture :: "error \<Rightarrow> string io" where
  "rethrow_capture err =
     io_bind (emit (ConsoleError ''Error taking screenshot:'' err))
       (\<lambda>_. io_throw (Error (''Failed to capture screenshot: '' @ message err)))"

text \<open>The lines the second command is filtered to.\<close>

definition resolution_lines :: "string \<Rightarrow> string list" where
  "resolution_lines screenInfo =
     filter (\<lambda>line. includes_str line ''Resolution'') (split_str screenInfo [CHR 0x0A])"

text \<open>Hosts and image libraries for the examples.\<close>

definition mac_one_display :: host where
  "mac_one_display =
     demo_host ''darwin'' (Inr ''Display Type: LCD'') (Inl ''Command failed'') Inr"

definition mac_two_resolutions :: host where
  "mac_two_resolutions =
     demo_host ''darwin'' (Inr ''Display Type: LCD'')
       (Inr ''Resolution: 1 x 1\<newline>Resolution: 2 x 2\<newline>'') Inr"

definition two_display_types :: string where
  "two_display_types =
     ''Color LCD:\<newline>  Display Type: Built-In Retina LCD\<newline>DELL U2720Q:\<newline>  Display Type: External\<newline>''"

definition two_resolutions :: string where
  "two_resolutions = ''      Resolution: 1920 x 1080\<newline>      Resolution: 800 x 600\<newline>''"

definition mac_bare_labels :: host where
  "mac_bare_labels =
     demo_host ''darwin'' (Inr (''Graphics/Displays:\<newline>'' @ two_resolutions))
       (Inr two_resolutions) Inr"

definition linux_host :: "(bytes \<Rightarrow> string + bytes) \<Rightarrow> host" where
  "linux_host resized = demo_host ''linux'' (Inr []) (Inr []) resized"

definition unreadable_image :: "bytes \<Rightarrow> string + bytes" where
  "unreadable_image data = Inl ''Input buffer contains unsupported image format''"


section \<open>Auxiliary facts\<close>

lemma io_bind_return: "io_bind (io_return x) f = f x"
  by (rule ext) (simp add: io_bind_def io_return_def)

lemma io_bind_throw: "io_bind (io_throw e) f = io_throw e"
  by (rule ext) (simp add: io_bind_def io_throw_def)

lemma io_catch_return: "io_catch (io_return x) f = io_return x"
  by (rule ext) (simp add: io_catch_def io_return_def)

lemma io_catch_throw: "io_catch (io_throw e) f = f e"
  by (rule ext) (simp add: io_catch_def io_throw_def)

lemma map_enumerate_index: "map (\<lambda>p. g (fst p)) (enumerate n xs) = map g [n..<n + length xs]"
proof -
  have "map (\<lambda>p. g (fst p)) (enumerate n xs) = map (g \<circ> fst) (enumerate n xs)"
    by (simp add: comp_def)
  also have "\<dots> = map g (map fst (enumerate n xs))"
    by (simp only: map_map)
  also have "\<dots> = map g [n..<n + length xs]"
    by (simp only: map_fst_enumerate)
  finally show ?thesis .
qed

lemma section_displays_ids:
  "map screen_id (section_displays xs) = map int [1..<Suc (length xs)]"
proof -
  have "map screen_id (section_displays xs) = map (\<lambda>p. int (fst p) + 1) (enumerate 0 xs)"
    by (simp add: section_displays_def case_prod_beta o_def)
  also have "\<dots> = map (\<lambda>i. int i + 1) [0..<0 + length xs]"
    by (rule map_enumerate_index)
  also have "\<dots> = map int (map Suc [0..<length xs])"
    by (simp add: o_def)
  finally show ?thesis
    using map_Suc_upt [of 0 "length xs"] by simp
qed

lemma resolution_displays_ids:
  "map screen_id (resolution_displays xs) = map int [1..<Suc (length xs)]"
proof -
  have "map screen_id (resolution_displays xs) = map (\<lambda>p. int (fst p) + 1) (enumerate 0 xs)"
    by (simp add: resolution_displays_def case_prod_beta o_def)
  also have "\<dots> = map (\<lambda>i. int i + 1) [0..<0 + length xs]"
    by (rule map_enumerate_index)
  also have "\<dots> = map int (map Suc [0..<length xs])"
    by (simp add: o_def)
  finally show ?thesis
    using map_Suc_upt [of 0 "length xs"] by simp
qed

lemma section_displays_length: "length (section_displays xs) = length xs"
  by (simp add: section_displays_def)

lemma resolution_displays_length: "length (resolution_displays xs) = length xs"
  by (simp add: resolution_displays_def)

lemma section_displays_Nil: "section_displays xs = [] \<longleftrightarrow> xs = []"
  by (metis length_0_conv section_displays_length)

lemma numbered_main: "numbered_from_one [main_display]"
  by (simp add: numbered_from_one_def main_display_def)

lemma numbered_sections: "xs \<noteq> [] \<Longrightarrow> numbered_from_one (section_displays xs)"
  unfolding numbered_from_one_def
  using section_displays_ids [of xs] section_displays_length [of xs] by auto

lemma numbered_resolutions: "xs \<noteq> [] \<Longrightarrow> numbered_from_one (resolution_displays xs)"
  unfolding numbered_from_one_def
  using resolution_displays_ids [of xs] resolution_displays_length [of xs] by auto

lemma rescan_numbered:
  assumes "numbered_from_one ds" and "rescan_resolutions h ds w = (r, w')"
  shows "\<exists>ds'. r = Inr ds' \<and> numbered_from_one ds'"
proof -
  let ?cmd = "''system_profiler SPDisplaysDataType | grep Resolution''"
  obtain r1 w1 where e: "execAsync h ?cmd 0 w = (r1, w1)"
    by (cases "execAsync h ?cmd 0 w")
  show ?thesis
  proof (cases r1)
    case (Inl err)
    with e assms show ?thesis
      by (auto simp: rescan_resolutions_def io_catch_def io_bind_def io_return_def emit_def)
  next
    case (Inr screenInfo)
    let ?rs = "filter (\<lambda>line. includes_str line ''Resolution'') (split_str screenInfo [CHR 0x0A])"
    show ?thesis
    proof (cases "length ?rs > 1")
      case True
      then have "?rs \<noteq> []" by auto
      then have "numbered_from_one (resolution_displays ?rs)" by (rule numbered_resolutions)
      with True Inr e assms show ?thesis
        by (auto simp: rescan_resolutions_def io_catch_def io_bind_def io_return_def Let_def)
    next
      case False
      with Inr e assms show ?thesis
        by (auto simp: rescan_resolutions_def io_catch_def io_bind_def io_return_def Let_def)
    qed
  qed
qed

lemma darwin_screens_run:
  assumes "execAsync h ''system_profiler SPDisplaysDataType'' 0 w = (Inr stdout, w1)"
  shows "darwin_screens h w =
     (if nonblank_sections stdout = [] \<or> display_sections stdout = [] then (Inr [main_display], w1)
      else if length (display_sections stdout) \<le> 1
      then rescan_resolutions h (section_displays (display_sections stdout)) w1
      else (Inr (section_displays (display_sections stdout)), w1))"
  using assms
  by (simp add: darwin_screens_def io_bind_def io_return_def Let_def section_displays_length
        section_displays_Nil nonblank_sections_def display_sections_def)

lemma darwin_screens_fail:
  assumes "execAsync h ''system_profiler SPDisplaysDataType'' 0 w = (Inl e, w1)"
  shows "darwin_screens h w = (Inl e, w1)"
  using assms by (simp add: darwin_screens_def io_bind_def)

lemma darwin_numbered:
  assumes "darwin_screens h w = (Inr ds, w')"
  shows "numbered_from_one ds"
proof -
  let ?cmd = "''system_profiler SPDisplaysDataType''"
  obtain r1 w1 where e: "execAsync h ?cmd 0 w = (r1, w1)"
    by (cases "execAsync h ?cmd 0 w")
  from assms e obtain stdout where r1: "r1 = Inr stdout"
    by (cases r1) (auto simp: darwin_screens_fail)
  let ?secs = "display_sections stdout"
  note run = darwin_screens_run [OF e [unfolded r1]]
  show ?thesis
  proof (cases "nonblank_sections stdout = [] \<or> ?secs = []")
    case True
    with assms run have "ds = [main_display]" by auto
    then show ?thesis by (simp add: numbered_main)
  next
    case False
    then have "?secs \<noteq> []" by simp
    then have n: "numbered_from_one (section_displays ?secs)" by (rule numbered_sections)
    show ?thesis
    proof (cases "length ?secs \<le> 1")
      case True
      with False assms run have "rescan_resolutions h (section_displays ?secs) w1 = (Inr ds, w')"
        by auto
      with n show ?thesis using rescan_numbered by blast
    next
      case gt: False
      with False assms run have "ds = section_displays ?secs" by auto
      with n show ?thesis by simp
    qed
  qed
qed

lemma getAvailableScreens_run:
  "getAvailableScreens h w =
     (case getAvailableScreens_body h w of
        (Inl e, w1) \<Rightarrow>
          (Inr [main_display], w1\<lparr>events := events w1 @ [ConsoleError ''Error listing screens:'' e]\<rparr>)
      | (Inr ds, w1) \<Rightarrow> (Inr ds, w1))"
  by (simp add: getAvailableScreens_def io_catch_def io_bind_def emit_def io_return_def
           split: prod.splits sum.splits)

lemma body_numbered:
  assumes "getAvailableScreens_body h w = (Inr ds, w1)"
  shows "(platform h = ''darwin'' \<longrightarrow> numbered_from_one ds) \<and>
         (platform h \<noteq> ''darwin'' \<longrightarrow> ds = [primary_screen] \<and> (platform h = ''win32'' \<or> platform h = ''linux''))"
  using assms
  by (auto simp: getAvailableScreens_body_def io_return_def io_throw_def darwin_numbered
           split: if_splits)

lemma numbered_nonneg:
  assumes "numbered_from_one ds" and "d \<in> set ds"
  shows "0 \<le> screen_id d"
proof -
  from assms(2) have "screen_id d \<in> set (map screen_id ds)" by simp
  also from assms(1) have "map screen_id ds = map int [1..<Suc (length ds)]"
    by (simp add: numbered_from_one_def)
  finally show ?thesis by auto
qed

lemma scan_keeps_type:
  "\<forall>l \<in> set ls. \<not> is_type_line l \<Longrightarrow> displayType (foldl scan_line info ls) = displayType info"
  by (induction ls arbitrary: info) (auto simp: scan_line_def is_type_line_def)

lemma scan_keeps_resolution:
  "\<forall>l \<in> set ls. \<not> is_resolution_line l \<Longrightarrow>
     resolution (foldl scan_line info ls) = resolution info"
  by (induction ls arbitrary: info)
     (auto simp: scan_line_def is_type_line_def is_resolution_line_def)

lemma scan_keeps_name:
  "\<forall>l \<in> set ls. \<not> is_name_line l \<Longrightarrow>
     displayName (foldl scan_line info ls) = displayName info"
  by (induction ls arbitrary: info)
     (auto simp: scan_line_def is_type_line_def is_name_line_def)

lemma rescan_fail:
  assumes "child h rescan_command Unbounded (files w) (now w) = (Inl msg, fs, t)"
  shows "rescan_resolutions h displays w =
           (Inr displays,
            w\<lparr>files := fs, now := t,
              events := events w @
                [Exec rescan_command Unbounded,
                 ConsoleError ''Error getting alternative screen info:'' (Error msg)]\<rparr>)"
  using assms
  by (simp add: rescan_resolutions_def io_catch_def io_bind_def execAsync_def exec_limit_def
        emit_def io_return_def rescan_command_def)

lemma body_fails:
  assumes "getAvailableScreens_body h w = (Inl e, w1)"
  shows "(platform h = ''darwin'' \<and> execAsync h profiler_command 0 w = (Inl e, w1)) \<or>
         (platform h \<noteq> ''darwin'' \<and> platform h \<noteq> ''win32'' \<and> platform h \<noteq> ''linux'' \<and>
          e = unsupported_platform (platform h) \<and> w1 = w)"
proof (cases "platform h = ''darwin''")
  case True
  obtain r1 w1' where e: "execAsync h profiler_command 0 w = (r1, w1')"
    by (cases "execAsync h profiler_command 0 w")
  show ?thesis
  proof (cases r1)
    case (Inl e')
    with e have "darwin_screens h w = (Inl e', w1')"
      by (simp add: darwin_screens_fail profiler_command_def)
    with assms True e Inl show ?thesis
      by (simp add: getAvailableScreens_body_def)
  next
    case (Inr stdout)
    with e have "execAsync h ''system_profiler SPDisplaysDataType'' 0 w = (Inr stdout, w1')"
      by (simp add: profiler_command_def)
    from darwin_screens_run [OF this] assms True
    have "rescan_resolutions h (section_displays (display_sections stdout)) w1' = (Inl e, w1)"
      by (auto simp: getAvailableScreens_body_def split: if_splits)
    moreover have "numbered_from_one [main_display]" by (rule numbered_main)
    ultimately show ?thesis
      by (auto simp: rescan_resolutions_def io_catch_def io_bind_def io_return_def emit_def
            Let_def split: prod.splits sum.splits if_splits)
  qed
next
  case False
  with assms show ?thesis
    by (auto simp: getAvailableScreens_body_def io_return_def io_throw_def split: if_splits)
qed

lemma appends_return: "appends_only P (io_return x)"
  by (simp add: appends_only_def io_return_def)

lemma appends_throw: "appends_only P (io_throw e)"
  by (simp add: appends_only_def io_throw_def)

lemma appends_emit: "P ev \<Longrightarrow> appends_only P (emit ev)"
  by (simp add: appends_only_def emit_def)

lemma appends_date_now: "appends_only P date_now"
  by (simp add: appends_only_def date_now_def)

lemma appends_exec: "P (Exec cmd (exec_limit ms)) \<Longrightarrow> appends_only P (execAsync h cmd ms)"
  by (simp add: appends_only_def execAsync_def split: prod.splits)

lemma appends_readFile: "P (ReadFile p) \<Longrightarrow> appends_only P (readFile p)"
  by (simp add: appends_only_def readFile_def)

lemma appends_unlink: "P (Unlink p) \<Longrightarrow> appends_only P (unlink p)"
  by (simp add: appends_only_def unlink_def split: option.splits)

lemma appends_sharp: "P (Resize src req dst) \<Longrightarrow> appends_only P (sharp_resize_toFile h src req dst)"
  by (simp add: appends_only_def sharp_resize_toFile_def split: option.splits sum.splits)

lemma appends_bind:
  assumes "appends_only P m" and "\<And>x. appends_only P (f x)"
  shows "appends_only P (io_bind m f)"
  unfolding appends_only_def
proof
  fix w
  obtain r w1 where m: "m w = (r, w1)" by (cases "m w")
  from assms(1) have "\<exists>es. events (snd (m w)) = events w @ es \<and> list_all P es"
    by (simp add: appends_only_def)
  with m obtain es where es: "events w1 = events w @ es" "list_all P es"
    by auto
  show "\<exists>es. events (snd (io_bind m f w)) = events w @ es \<and> list_all P es"
  proof (cases r)
    case (Inl e)
    with m es show ?thesis by (simp add: io_bind_def)
  next
    case (Inr x)
    from assms(2) [of x] have "\<exists>es. events (snd (f x w1)) = events w1 @ es \<and> list_all P es"
      by (simp add: appends_only_def)
    then obtain es' where "events (snd (f x w1)) = events w1 @ es'" "list_all P es'"
      by auto
    with m es Inr show ?thesis by (simp add: io_bind_def)
  qed
qed

lemma appends_catch:
  assumes "appends_only P m" and "\<And>e. appends_only P (f e)"
  shows "appends_only P (io_catch m f)"
  unfolding appends_only_def
proof
  fix w
  obtain r w1 where m: "m w = (r, w1)" by (cases "m w")
  from assms(1) have "\<exists>es. events (snd (m w)) = events w @ es \<and> list_all P es"
    by (simp add: appends_only_def)
  with m obtain es where es: "events w1 = events w @ es" "list_all P es"
    by auto
  show "\<exists>es. events (snd (io_catch m f w)) = events w @ es \<and> list_all P es"
  proof (cases r)
    case (Inr x)
    with m es show ?thesis by (simp add: io_catch_def)
  next
    case (Inl e)
    from assms(2) [of e] have "\<exists>es. events (snd (f e w1)) = events w1 @ es \<and> list_all P es"
      by (simp add: appends_only_def)
    then obtain es' where "events (snd (f e w1)) = events w1 @ es'" "list_all P es'"
      by auto
    with m es Inl show ?thesis by (simp add: io_catch_def)
  qed
qed

lemma appends_if:
  "appends_only P a \<Longrightarrow> appends_only P b \<Longrightarrow> appends_only P (if c then a else b)"
  by simp

lemmas appends_intros =
  appends_return appends_throw appends_emit appends_date_now appends_exec appends_readFile
  appends_unlink appends_sharp appends_bind appends_catch appends_if

lemma appends_rescan: "appends_only (\<lambda>ev. \<not> is_resize ev) (rescan_resolutions h ds)"
  unfolding rescan_resolutions_def Let_def
  by (intro appends_intros) (simp_all add: is_resize_def)

lemma appends_darwin: "appends_only (\<lambda>ev. \<not> is_resize ev) (darwin_screens h)"
  unfolding darwin_screens_def Let_def
  by (intro appends_intros appends_rescan) (simp_all add: is_resize_def)

lemma appends_screens: "appends_only (\<lambda>ev. \<not> is_resize ev) (getAvailableScreens h)"
  unfolding getAvailableScreens_def getAvailableScreens_body_def
  by (intro appends_intros appends_darwin) (simp_all add: is_resize_def)

lemma appends_command: "appends_only (\<lambda>ev. \<not> is_resize ev) (capture_command h sid p)"
  unfolding capture_command_def Let_def
  by (intro appends_intros appends_screens) (simp_all add: is_resize_def)

lemma appends_weaken: "appends_only P m \<Longrightarrow> appends_only (\<lambda>ev. True) m"
  by (auto simp: appends_only_def list_all_iff)

lemma appends_post: "appends_only (\<lambda>ev. True) (post_process h sid tmp p)"
  unfolding post_process_def Let_def
  by (intro appends_intros) simp_all


lemma takeScreenshot_rethrow:
  "takeScreenshot h url opts = io_catch (takeScreenshot_body h url opts) rethrow_capture"
  unfolding takeScreenshot_def rethrow_capture_def by (rule refl)

lemma appends_rethrow: "appends_only (\<lambda>ev. \<not> is_resize ev) (rethrow_capture e)"
  unfolding rethrow_capture_def
  by (intro appends_intros) (simp_all add: is_resize_def)


lemma appends_onlyD:
  "appends_only P m \<Longrightarrow> \<exists>es. events (snd (m w)) = events w @ es \<and> list_all P es"
  by (simp add: appends_only_def)

lemma rethrow_fails: "\<exists>e w'. rethrow_capture err w = (Inl e, w')"
  by (simp add: rethrow_capture_def io_bind_def emit_def io_throw_def)

lemma take_run:
  assumes "capture_command h (requested_screen opts) (screenshot_path h (now w)) w = (Inr cmd, w1)"
  shows "takeScreenshot h url opts w =
           io_catch
             (io_bind (execAsync h cmd (timeout_or_zero opts))
                (\<lambda>_. post_process h (requested_screen opts) (tmpdir h) (screenshot_path h (now w))))
             rethrow_capture w1"
  using assms
  by (simp add: takeScreenshot_rethrow takeScreenshot_body_def Let_def io_bind_def io_catch_def
        date_now_def)

lemma exec_events:
  "events (snd (execAsync h cmd ms w)) = events w @ [Exec cmd (exec_limit ms)]"
  by (simp add: execAsync_def split: prod.splits)

lemma exec_then:
  assumes "\<And>x. appends_only (\<lambda>ev. True) (f x)" and "\<And>e. appends_only (\<lambda>ev. True) (g e)"
  shows "\<exists>rest. events (snd (io_catch (io_bind (execAsync h cmd ms) f) g w1)) =
           events w1 @ Exec cmd (exec_limit ms) # rest"
proof -
  obtain r w2 where e: "execAsync h cmd ms w1 = (r, w2)"
    by (cases "execAsync h cmd ms w1")
  with exec_events [of h cmd ms w1] have ev: "events w2 = events w1 @ [Exec cmd (exec_limit ms)]"
    by simp
  show ?thesis
  proof (cases r)
    case (Inl err)
    with e have "io_catch (io_bind (execAsync h cmd ms) f) g w1 = g err w2"
      by (simp add: io_catch_def io_bind_def)
    moreover from appends_onlyD [OF assms(2), of err w2]
    obtain es where "events (snd (g err w2)) = events w2 @ es" by auto
    ultimately show ?thesis using ev by simp
  next
    case (Inr out)
    with e have "io_catch (io_bind (execAsync h cmd ms) f) g w1 = io_catch (f out) g w2"
      by (simp add: io_catch_def io_bind_def)
    moreover have "appends_only (\<lambda>ev. True) (io_catch (f out) g)"
      by (intro appends_catch assms)
    from appends_onlyD [OF this, of w2]
    obtain es where "events (snd (io_catch (f out) g w2)) = events w2 @ es" by auto
    ultimately show ?thesis using ev by simp
  qed
qed

lemma take_events:
  assumes "capture_command h (requested_screen opts) (screenshot_path h (now w)) w = (Inr cmd, w1)"
  shows "\<exists>rest. events (snd (takeScreenshot h url opts w)) =
           events w1 @ Exec cmd (exec_limit (timeout_or_zero opts)) # rest"
  unfolding take_run [OF assms]
  by (intro exec_then appends_post appends_weaken [OF appends_rethrow])

lemma command_darwin:
  assumes "platform h = ''darwin''" and "getAvailableScreens h w = (Inr screens, w1)"
  shows "capture_command h sid p w =
           (if list_ex (\<lambda>s. screen_id s = sid) screens \<or> sid = 1
            then (Inr (''screencapture -D '' @ number_text h sid @ '' -x '' @ dquote @ p @ dquote), w1)
            else (Inr (''screencapture -x '' @ dquote @ p @ dquote),
                  w1\<lparr>events := events w1 @
                     [ConsoleWarn (''Display ID '' @ number_text h sid @
                        '' not found, defaulting to main display'')]\<rparr>))"
  using assms
  by (simp add: capture_command_def io_bind_def io_return_def emit_def Let_def)

lemma darwin_display_choice:
  assumes "platform h = ''darwin''" and "getAvailableScreens h w = (Inr screens, w1)"
  shows "if list_ex (\<lambda>s. screen_id s = requested_screen opts) screens \<or> requested_screen opts = 1
         then \<exists>rest. events (snd (takeScreenshot h url opts w)) =
                events w1 @
                Exec (''screencapture -D '' @ number_text h (requested_screen opts) @ '' -x '' @
                      dquote @ screenshot_path h (now w) @ dquote)
                  (exec_limit (timeout_or_zero opts)) # rest
         else \<exists>rest. events (snd (takeScreenshot h url opts w)) =
                events w1 @
                ConsoleWarn (''Display ID '' @ number_text h (requested_screen opts) @
                             '' not found, defaulting to main display'') #
                Exec (''screencapture -x '' @ dquote @ screenshot_path h (now w) @ dquote)
                  (exec_limit (timeout_or_zero opts)) # rest"
proof (cases "list_ex (\<lambda>s. screen_id s = requested_screen opts) screens \<or> requested_screen opts = 1")
  case True
  with command_darwin [OF assms, of "requested_screen opts" "screenshot_path h (now w)"]
  have "capture_command h (requested_screen opts) (screenshot_path h (now w)) w =
      (Inr (''screencapture -D '' @ number_text h (requested_screen opts) @ '' -x '' @
              dquote @ screenshot_path h (now w) @ dquote), w1)"
    by (simp only: if_True)
  from take_events [OF this] True show ?thesis by (simp only: if_True)
next
  case False
  with command_darwin [OF assms, of "requested_screen opts" "screenshot_path h (now w)"]
  have "capture_command h (requested_screen opts) (screenshot_path h (now w)) w =
      (Inr (''screencapture -x '' @ dquote @ screenshot_path h (now w) @ dquote),
       w1\<lparr>events := events w1 @
          [ConsoleWarn (''Display ID '' @ number_text h (requested_screen opts) @
             '' not found, defaulting to main display'')]\<rparr>)"
    by (simp only: if_False)
  from take_events [OF this, of url] obtain rest where
    "events (snd (takeScreenshot h url opts w)) =
       (events w1 @ [ConsoleWarn (''Display ID '' @ number_text h (requested_screen opts) @
             '' not found, defaulting to main display'')]) @
       Exec (''screencapture -x '' @ dquote @ screenshot_path h (now w) @ dquote)
         (exec_limit (timeout_or_zero opts)) # rest"
    by auto
  then have "events (snd (takeScreenshot h url opts w)) =
       events w1 @ ConsoleWarn (''Display ID '' @ number_text h (requested_screen opts) @
             '' not found, defaulting to main display'') #
       Exec (''screencapture -x '' @ dquote @ screenshot_path h (now w) @ dquote)
         (exec_limit (timeout_or_zero opts)) # rest"
    by (simp only: append_assoc append_Cons append_Nil)
  with False show ?thesis by (simp only: if_False) blast
qed

lemma take_success:
  assumes "takeScreenshot h url opts w = (Inr s, w')"
  shows "\<exists>cmd w1 out w2.
           capture_command h (requested_screen opts) (screenshot_path h (now w)) w = (Inr cmd, w1) \<and>
           execAsync h cmd (timeout_or_zero opts) w1 = (Inr out, w2) \<and>
           post_process h (requested_screen opts) (tmpdir h) (screenshot_path h (now w)) w2 = (Inr s, w')"
proof -
  obtain r wb where b: "takeScreenshot_body h url opts w = (r, wb)"
    by (cases "takeScreenshot_body h url opts w")
  from assms b rethrow_fails have "r = Inr s \<and> wb = w'"
    by (cases r) (auto simp: takeScreenshot_rethrow io_catch_def, metis Inl_Inr_False prod.inject)
  with b have "takeScreenshot_body h url opts w = (Inr s, w')" by simp
  then show ?thesis
    by (auto simp: takeScreenshot_body_def Let_def io_bind_def date_now_def
          split: prod.splits sum.splits)
qed

lemma post_plain_success:
  assumes "sid \<noteq> 2" and "post_process h sid tmp p w2 = (Inr s, w')"
  shows "\<exists>raw. files w2 p = Some raw \<and> s = toString_base64 raw \<and>
           files w' = (files w2)(p := None) \<and>
           events w' = events w2 @ [ReadFile p, Unlink p]"
  using assms
  by (auto simp: post_process_def io_bind_def io_return_def readFile_def unlink_def
        split: option.splits)

lemma post_resized_success:
  assumes "post_process h 2 tmp p w2 = (Inr s, w')"
  shows "\<exists>raw img. files w2 p = Some raw \<and> resize_image h mobile_canvas raw = Inr img \<and>
           s = toString_base64 img \<and>
           files w' p = None \<and>
           files w' (path_join h tmp (''screenshot-resized-'' @ show_nat (now w2) @ ''.png'')) = None \<and>
           events w' = events w2 @
             [Resize p mobile_canvas (path_join h tmp (''screenshot-resized-'' @ show_nat (now w2) @ ''.png'')),
              Unlink p,
              ReadFile (path_join h tmp (''screenshot-resized-'' @ show_nat (now w2) @ ''.png'')),
              Unlink (path_join h tmp (''screenshot-resized-'' @ show_nat (now w2) @ ''.png''))]"
  using assms
  by (auto simp: post_process_def io_bind_def io_return_def readFile_def unlink_def date_now_def
        sharp_resize_toFile_def Let_def
        split: option.splits sum.splits if_splits)

lemma command_events:
  assumes "capture_command h sid p w = (r, w1)"
  shows "\<exists>es. events w1 = events w @ es \<and> list_all (\<lambda>ev. \<not> is_resize ev) es"
  using appends_onlyD [OF appends_command, of h sid p w] assms by simp





lemma rescan_run:
  assumes "execAsync h rescan_command 0 w = (Inr screenInfo, w2)"
  shows "rescan_resolutions h displays w =
           (Inr (if length (resolution_lines screenInfo) > 1
                 then resolution_displays (resolution_lines screenInfo) else displays), w2)"
  using assms
  by (simp add: rescan_resolutions_def io_catch_def io_bind_def io_return_def Let_def
        rescan_command_def resolution_lines_def)

lemma rescan_error:
  assumes "execAsync h rescan_command 0 w = (Inl e, w2)"
  shows "rescan_resolutions h displays w =
           (Inr displays,
            w2\<lparr>events := events w2 @ [ConsoleError ''Error getting alternative screen info:'' e]\<rparr>)"
  using assms
  by (simp add: rescan_resolutions_def io_catch_def io_bind_def io_return_def emit_def
        rescan_command_def)

lemma resolution_displays_nth:
  assumes "i < length rs"
  shows "resolution_displays rs ! i =
           \<lparr>screen_id = int i + 1,
            description =
              (if i = 0 then ''Main Display ('' @ colon_field (rs ! i) [] @ '')''
               else ''External Display '' @ show_nat i @ '' ('' @ colon_field (rs ! i) [] @ '')'')\<rparr>"
  using assms by (simp add: resolution_displays_def nth_enumerate_eq)

lemma screens_darwin:
  assumes "platform h = ''darwin''"
  shows "getAvailableScreens h w =
           (case darwin_screens h w of
              (Inl e, w1) \<Rightarrow>
                (Inr [main_display],
                 w1\<lparr>events := events w1 @ [ConsoleError ''Error listing screens:'' e]\<rparr>)
            | (Inr ds, w1) \<Rightarrow> (Inr ds, w1))"
  using assms by (simp add: getAvailableScreens_run getAvailableScreens_body_def)

lemma pair_fst_snd: "fst x = a \<Longrightarrow> x = (a, snd x)"
  by (cases x) simp

lemma take_failure:
  assumes "takeScreenshot_body h url opts w = (Inl e, wb)"
  shows "takeScreenshot h url opts w =
           (Inl (Error (''Failed to capture screenshot: '' @ message e)),
            wb\<lparr>events := events wb @ [ConsoleError ''Error taking screenshot:'' e]\<rparr>)"
  using assms
  unfolding takeScreenshot_def
  by (simp add: io_catch_def io_bind_def emit_def io_throw_def)

lemma success_removes_temp_files:
  assumes "takeScreenshot h url opts w = (Inr s, w')"
  shows "files w' (screenshot_path h (now w)) = None \<and>
         (\<forall>src req dst. Resize src req dst \<in> set (new_events w w') \<longrightarrow> files w' dst = None)"
proof -
  let ?p = "screenshot_path h (now w)"
  let ?sid = "requested_screen opts"
  from take_success [OF assms] obtain cmd w1 out w2 where
    c: "capture_command h ?sid ?p w = (Inr cmd, w1)" and
    e: "execAsync h cmd (timeout_or_zero opts) w1 = (Inr out, w2)" and
    pp: "post_process h ?sid (tmpdir h) ?p w2 = (Inr s, w')"
    by blast
  from command_events [OF c] obtain es where
    es: "events w1 = events w @ es" "list_all (\<lambda>ev. \<not> is_resize ev) es"
    by blast
  from exec_events [of h cmd "timeout_or_zero opts" w1] e
  have ev2: "events w2 = events w @ es @ [Exec cmd (exec_limit (timeout_or_zero opts))]"
    using es by simp
  show ?thesis
  proof (cases "?sid = 2")
    case False
    from post_plain_success [OF False pp] obtain raw where
      "files w' = (files w2)(?p := None)" "events w' = events w2 @ [ReadFile ?p, Unlink ?p]"
      by blast
    with ev2 es show ?thesis
      by (auto simp: new_events_def list_all_iff is_resize_def)
  next
    case True
    let ?dst = "path_join h (tmpdir h) (''screenshot-resized-'' @ show_nat (now w2) @ ''.png'')"
    from pp True have "post_process h 2 (tmpdir h) ?p w2 = (Inr s, w')" by simp
    from post_resized_success [OF this] have
      "files w' ?p = None" "files w' ?dst = None"
      "events w' = events w2 @ [Resize ?p mobile_canvas ?dst, Unlink ?p, ReadFile ?dst, Unlink ?dst]"
      by blast+
    with ev2 es show ?thesis
      by (auto simp: new_events_def list_all_iff is_resize_def)
  qed
qed

section \<open>The claims\<close>

text \<open>
  C1, as the code has it. On a platform that is none of \<^verbatim>\<open>darwin\<close>, \<^verbatim>\<open>win32\<close>, \<^verbatim>\<open>linux\<close>:
  \<^verbatim>\<open>takeScreenshot\<close> fails with the error "Failed to capture screenshot: Unsupported platform:
  tag", and \<^verbatim>\<open>getAvailableScreens\<close> raises "Unsupported platform: tag" inside its own
  \<^verbatim>\<open>try\<close>, catches it and returns the single descriptor Main Display. Neither runs an
  external command: each only writes the error to the console.
\<close>

theorem C1_unsupported_platform:
  assumes "platform h \<noteq> ''darwin''" and "platform h \<noteq> ''win32''" and "platform h \<noteq> ''linux''"
  shows "takeScreenshot h url opts w =
           (Inl (Error (''Failed to capture screenshot: Unsupported platform: '' @ platform h)),
            w\<lparr>events := events w @
               [ConsoleError ''Error taking screenshot:''
                  (Error (''Unsupported platform: '' @ platform h))]\<rparr>) \<and>
         getAvailableScreens h w =
           (Inr [main_display],
            w\<lparr>events := events w @
               [ConsoleError ''Error listing screens:''
                  (Error (''Unsupported platform: '' @ platform h))]\<rparr>)"
proof
  from assms have "capture_command h (requested_screen opts) (screenshot_path h (now w)) w =
      (Inl (unsupported_platform (platform h)), w)"
    by (simp add: capture_command_def io_throw_def)
  then have "takeScreenshot_body h url opts w = (Inl (unsupported_platform (platform h)), w)"
    by (simp add: takeScreenshot_body_def Let_def io_bind_def date_now_def)
  then show "takeScreenshot h url opts w =
           (Inl (Error (''Failed to capture screenshot: Unsupported platform: '' @ platform h)),
            w\<lparr>events := events w @
               [ConsoleError ''Error taking screenshot:''
                  (Error (''Unsupported platform: '' @ platform h))]\<rparr>)"
    by (simp add: takeScreenshot_def io_catch_def io_bind_def emit_def io_throw_def
          unsupported_platform_def)
next
  from assms have "getAvailableScreens_body h w = (Inl (unsupported_platform (platform h)), w)"
    by (simp add: getAvailableScreens_body_def io_throw_def)
  then show "getAvailableScreens h w =
           (Inr [main_display],
            w\<lparr>events := events w @
               [ConsoleError ''Error listing screens:''
                  (Error (''Unsupported platform: '' @ platform h))]\<rparr>)"
    by (simp add: getAvailableScreens_run unsupported_platform_def)
qed

theorem C1_unsupported_platform_witness:
  "takeScreenshot (demo_host ''freebsd'' (Inr []) (Inr []) Inr) [] plain_options idle_world =
     (Inl (Error ''Failed to capture screenshot: Unsupported platform: freebsd''),
      idle_world\<lparr>events :=
        [ConsoleError ''Error taking screenshot:'' (Error ''Unsupported platform: freebsd'')]\<rparr>) \<and>
   getAvailableScreens (demo_host ''freebsd'' (Inr []) (Inr []) Inr) idle_world =
     (Inr [main_display],
      idle_world\<lparr>events :=
        [ConsoleError ''Error listing screens:'' (Error ''Unsupported platform: freebsd'')]\<rparr>)"
  using C1_unsupported_platform [of "demo_host ''freebsd'' (Inr []) (Inr []) Inr" "[]"
      plain_options idle_world]
  by (simp add: demo_host_def idle_world_def)

text \<open>
  C1 as stated fails: on the platform \<^verbatim>\<open>freebsd\<close> the enumeration does not fail, it returns
  the descriptor Main Display.
\<close>

theorem C1_counterexample:
  "platform (demo_host ''freebsd'' (Inr []) (Inr []) Inr) \<noteq> ''darwin'' \<and>
   platform (demo_host ''freebsd'' (Inr []) (Inr []) Inr) \<noteq> ''win32'' \<and>
   platform (demo_host ''freebsd'' (Inr []) (Inr []) Inr) \<noteq> ''linux'' \<and>
   fst (getAvailableScreens (demo_host ''freebsd'' (Inr []) (Inr []) Inr) idle_world) =
     Inr [\<lparr>screen_id = 1, description = ''Main Display''\<rparr>]"
  by code_simp

text \<open>
  C2, as the code has it. When \<^verbatim>\<open>takeScreenshot\<close> returns successfully, neither the capture
  file nor the file written by a resize of this call is left. When the body fails, the
  handler logs the error and throws the wrapped error: it removes nothing, the files are
  those of the moment of the failure.
\<close>

theorem C2_temp_files_removed_on_success:
  "(\<forall>s w'. takeScreenshot h url opts w = (Inr s, w') \<longrightarrow>
      files w' (screenshot_path h (now w)) = None \<and>
      (\<forall>src req dst. Resize src req dst \<in> set (new_events w w') \<longrightarrow> files w' dst = None)) \<and>
   (\<forall>e wb. takeScreenshot_body h url opts w = (Inl e, wb) \<longrightarrow>
      takeScreenshot h url opts w =
        (Inl (Error (''Failed to capture screenshot: '' @ message e)),
         wb\<lparr>events := events wb @ [ConsoleError ''Error taking screenshot:'' e]\<rparr>))"
  using success_removes_temp_files take_failure by blast

theorem C2_temp_files_removed_on_success_witness:
  "fst (takeScreenshot (linux_host Inr) [] plain_options idle_world) = Inr ''UE5H'' \<and>
   files (snd (takeScreenshot (linux_host Inr) [] plain_options idle_world)) ''/tmp/screenshot-0.png'' = None"
proof -
  have r: "fst (takeScreenshot (linux_host Inr) [] plain_options idle_world) = Inr ''UE5H''"
    by code_simp
  have p: "screenshot_path (linux_host Inr) (now idle_world) = ''/tmp/screenshot-0.png''"
    by code_simp
  from r have "takeScreenshot (linux_host Inr) [] plain_options idle_world =
      (Inr ''UE5H'', snd (takeScreenshot (linux_host Inr) [] plain_options idle_world))"
    by (rule pair_fst_snd)
  with C2_temp_files_removed_on_success [of "linux_host Inr" "[]" plain_options idle_world]
  have "files (snd (takeScreenshot (linux_host Inr) [] plain_options idle_world))
          (screenshot_path (linux_host Inr) (now idle_world)) = None"
    by blast
  with r p show ?thesis by simp
qed

text \<open>
  C2 as stated fails: on \<^verbatim>\<open>linux\<close> with screen 2, when the image library rejects the captured
  file, the call fails and the capture file, which did not exist before, is still there.
\<close>

theorem C2_counterexample:
  "screenshot_path (linux_host unreadable_image) (now idle_world) = ''/tmp/screenshot-0.png'' \<and>
   files idle_world ''/tmp/screenshot-0.png'' = None \<and>
   fst (takeScreenshot (linux_host unreadable_image) [] (plain_options\<lparr>screenId := Some 2\<rparr>)
          idle_world) =
     Inl (Error ''Failed to capture screenshot: Input buffer contains unsupported image format'') \<and>
   events (snd (takeScreenshot (linux_host unreadable_image) [] (plain_options\<lparr>screenId := Some 2\<rparr>)
          idle_world)) =
     [Exec (''import -window root '' @ dquote @ ''/tmp/screenshot-0.png'' @ dquote) Unbounded,
      Resize ''/tmp/screenshot-0.png'' mobile_canvas ''/tmp/screenshot-resized-7.png'',
      ConsoleError ''Error taking screenshot:''
        (Error ''Input buffer contains unsupported image format'')] \<and>
   files (snd (takeScreenshot (linux_host unreadable_image) [] (plain_options\<lparr>screenId := Some 2\<rparr>)
          idle_world)) ''/tmp/screenshot-0.png'' = Some ''PNG''"
  by code_simp

text \<open>
  C3, as the code has it. A line counts for the first of the labels type, resolution, name
  that it contains (anywhere in the line), and every such line assigns the field again:
  the value of a field comes from the last line that counts for it.
\<close>

theorem C3_last_matching_line_wins:
  "(is_type_line l \<and> (\<forall>l' \<in> set after. \<not> is_type_line l') \<longrightarrow>
      displayType (scan_lines (before @ l # after)) = colon_field l ''Unknown'') \<and>
   (is_resolution_line l \<and> (\<forall>l' \<in> set after. \<not> is_resolution_line l') \<longrightarrow>
      resolution (scan_lines (before @ l # after)) = colon_field l []) \<and>
   (is_name_line l \<and> (\<forall>l' \<in> set after. \<not> is_name_line l') \<longrightarrow>
      displayName (scan_lines (before @ l # after)) = colon_field l [])"
  by (auto simp: scan_lines_def scan_keeps_type scan_keeps_resolution scan_keeps_name)
     (auto simp: scan_line_def is_type_line_def is_resolution_line_def is_name_line_def)

theorem C3_last_matching_line_wins_witness:
  "is_resolution_line ''Resolution: 800 x 600'' \<and>
   list_all (\<lambda>l. \<not> is_resolution_line l) [''Display Type: LCD''] \<and>
   resolution (scan_lines [''Resolution: 1920 x 1080'', ''Resolution: 800 x 600'', ''Display Type: LCD'']) =
     ''800 x 600''"
proof -
  have a: "is_resolution_line ''Resolution: 800 x 600''"
    by code_simp
  have b: "list_all (\<lambda>l. \<not> is_resolution_line l) [''Display Type: LCD'']"
    by code_simp
  have c: "colon_field ''Resolution: 800 x 600'' [] = ''800 x 600''"
    by code_simp
  from b have "\<forall>l' \<in> set [''Display Type: LCD'']. \<not> is_resolution_line l'"
    by simp
  with a C3_last_matching_line_wins [of "''Resolution: 800 x 600''" "[''Display Type: LCD'']"
      "[''Resolution: 1920 x 1080'']"]
  have "resolution (scan_lines ([''Resolution: 1920 x 1080''] @ ''Resolution: 800 x 600'' # [''Display Type: LCD''])) =
      colon_field ''Resolution: 800 x 600'' []"
    by blast
  with a b c show ?thesis by simp
qed

text \<open>
  C3 as stated fails: a profile that names two displays in one section has two lines with
  the type label, and the later one gives the value of the descriptor.
\<close>

theorem C3_counterexample:
  "colon_field ''Display Type: Built-In Retina LCD'' ''Unknown'' = ''Built-In Retina LCD'' \<and>
   split_sections two_display_types = [two_display_types] \<and>
   displayType (scan_section two_display_types) = ''External'' \<and>
   describe_section two_display_types = ''External'' \<and>
   fst (getAvailableScreens (demo_host ''darwin'' (Inr two_display_types) (Inl ''Command failed'') Inr)
          idle_world) =
     Inr [\<lparr>screen_id = 1, description = ''External''\<rparr>]"
  by code_simp



text \<open>
  C5. On \<^verbatim>\<open>darwin\<close>, when the requested screen is among the descriptors that the enumerator
  returns, or is 1, the command that is run right after the enumeration is
  \<^verbatim>\<open>screencapture -D n -x "path"\<close>: exactly that display, silently, with no warning. For every
  other requested screen a warning is logged and the command is \<^verbatim>\<open>screencapture -x "path"\<close>,
  the primary display; the call goes on to run it. In the command and in the warning the
  number is written as a template literal prints it: for a safe integer, its decimal digits.
\<close>

theorem C5_darwin_display_choice:
  assumes "platform h = ''darwin''" and "fst (getAvailableScreens h w) = Inr screens"
  shows "(safe_integer (requested_screen opts) \<longrightarrow>
            number_text h (requested_screen opts) = show_int (requested_screen opts)) \<and>
         (if list_ex (\<lambda>s. screen_id s = requested_screen opts) screens \<or> requested_screen opts = 1
          then \<exists>rest. events (snd (takeScreenshot h url opts w)) =
                 events (snd (getAvailableScreens h w)) @
                 Exec (''screencapture -D '' @ number_text h (requested_screen opts) @ '' -x '' @
                       dquote @ screenshot_path h (now w) @ dquote)
                   (exec_limit (timeout_or_zero opts)) # rest
          else \<exists>rest. events (snd (takeScreenshot h url opts w)) =
                 events (snd (getAvailableScreens h w)) @
                 ConsoleWarn (''Display ID '' @ number_text h (requested_screen opts) @
                              '' not found, defaulting to main display'') #
                 Exec (''screencapture -x '' @ dquote @ screenshot_path h (now w) @ dquote)
                   (exec_limit (timeout_or_zero opts)) # rest)"
proof
  show "safe_integer (requested_screen opts) \<longrightarrow>
          number_text h (requested_screen opts) = show_int (requested_screen opts)"
    by (simp add: number_text_def)
next
  from assms(2) have "getAvailableScreens h w = (Inr screens, snd (getAvailableScreens h w))"
    by (cases "getAvailableScreens h w") simp
  from darwin_display_choice [OF assms(1) this]
  show "if list_ex (\<lambda>s. screen_id s = requested_screen opts) screens \<or> requested_screen opts = 1
        then \<exists>rest. events (snd (takeScreenshot h url opts w)) =
               events (snd (getAvailableScreens h w)) @
               Exec (''screencapture -D '' @ number_text h (requested_screen opts) @ '' -x '' @
                     dquote @ screenshot_path h (now w) @ dquote)
                 (exec_limit (timeout_or_zero opts)) # rest
        else \<exists>rest. events (snd (takeScreenshot h url opts w)) =
               events (snd (getAvailableScreens h w)) @
               ConsoleWarn (''Display ID '' @ number_text h (requested_screen opts) @
                            '' not found, defaulting to main display'') #
               Exec (''screencapture -x '' @ dquote @ screenshot_path h (now w) @ dquote)
                 (exec_limit (timeout_or_zero opts)) # rest" .
qed

theorem C5_darwin_display_choice_witness:
  "platform mac_one_display = ''darwin'' \<and>
   fst (getAvailableScreens mac_one_display idle_world) = Inr [\<lparr>screen_id = 1, description = ''LCD''\<rparr>] \<and>
   safe_integer 99 \<and>
   (\<exists>rest. events (snd (takeScreenshot mac_one_display [] (plain_options\<lparr>screenId := Some 99\<rparr>)
                idle_world)) =
      [Exec ''system_profiler SPDisplaysDataType'' Unbounded,
       Exec ''system_profiler SPDisplaysDataType | grep Resolution'' Unbounded,
       ConsoleError ''Error getting alternative screen info:'' (Error ''Command failed''),
       ConsoleWarn ''Display ID 99 not found, defaulting to main display'',
       Exec (''screencapture -x '' @ dquote @ ''/tmp/screenshot-0.png'' @ dquote) Unbounded] @ rest) \<and>
   (\<exists>rest. events (snd (takeScreenshot mac_one_display [] plain_options idle_world)) =
      [Exec ''system_profiler SPDisplaysDataType'' Unbounded,
       Exec ''system_profiler SPDisplaysDataType | grep Resolution'' Unbounded,
       ConsoleError ''Error getting alternative screen info:'' (Error ''Command failed''),
       Exec (''screencapture -D 1 -x '' @ dquote @ ''/tmp/screenshot-0.png'' @ dquote) Unbounded] @ rest)"
proof -
  have p: "platform mac_one_display = ''darwin''"
    by (simp add: mac_one_display_def demo_host_def)
  have s: "fst (getAvailableScreens mac_one_display idle_world) =
      Inr [\<lparr>screen_id = 1, description = ''LCD''\<rparr>]"
    by code_simp
  have e: "events (snd (getAvailableScreens mac_one_display idle_world)) =
      [Exec ''system_profiler SPDisplaysDataType'' Unbounded,
       Exec ''system_profiler SPDisplaysDataType | grep Resolution'' Unbounded,
       ConsoleError ''Error getting alternative screen info:'' (Error ''Command failed'')]"
    by code_simp
  have v: "requested_screen (plain_options\<lparr>screenId := Some 99\<rparr>) = 99"
      "requested_screen plain_options = 1"
      "screenshot_path mac_one_display (now idle_world) = ''/tmp/screenshot-0.png''"
      "exec_limit (timeout_or_zero (plain_options\<lparr>screenId := Some 99\<rparr>)) = Unbounded"
      "exec_limit (timeout_or_zero plain_options) = Unbounded"
    by code_simp+
  have d: "number_text mac_one_display 99 = ''99''" "number_text mac_one_display 1 = ''1''"
    by code_simp+
  have safe: "safe_integer 99" "safe_integer 1"
    by (simp_all add: safe_integer_def)
  from conjunct2 [OF C5_darwin_display_choice [OF p s, of "plain_options\<lparr>screenId := Some 99\<rparr>" "[]"]]
  have far: "\<exists>rest. events (snd (takeScreenshot mac_one_display []
                (plain_options\<lparr>screenId := Some 99\<rparr>) idle_world)) =
      [Exec ''system_profiler SPDisplaysDataType'' Unbounded,
       Exec ''system_profiler SPDisplaysDataType | grep Resolution'' Unbounded,
       ConsoleError ''Error getting alternative screen info:'' (Error ''Command failed''),
       ConsoleWarn ''Display ID 99 not found, defaulting to main display'',
       Exec (''screencapture -x '' @ dquote @ ''/tmp/screenshot-0.png'' @ dquote) Unbounded] @ rest"
    unfolding v e d by simp
  from conjunct2 [OF C5_darwin_display_choice [OF p s, of plain_options "[]"]]
  have main: "\<exists>rest. events (snd (takeScreenshot mac_one_display [] plain_options idle_world)) =
      [Exec ''system_profiler SPDisplaysDataType'' Unbounded,
       Exec ''system_profiler SPDisplaysDataType | grep Resolution'' Unbounded,
       ConsoleError ''Error getting alternative screen info:'' (Error ''Command failed''),
       Exec (''screencapture -D 1 -x '' @ dquote @ ''/tmp/screenshot-0.png'' @ dquote) Unbounded] @ rest"
    unfolding v e d by simp
  from p s safe far main show ?thesis by blast
qed

text \<open>
  C6, as the code has it. \<^verbatim>\<open>getAvailableScreens\<close> never fails. When the body of its
  \<^verbatim>\<open>try\<close> fails (the first introspection command fails on \<^verbatim>\<open>darwin\<close>, or the platform is
  not supported) it logs the error and returns exactly the single descriptor Main Display.
  A failure of the second command, the one that greps the resolution lines, is caught by the
  inner handler, which logs it and keeps the list built so far.
\<close>

theorem C6_enumerator_never_raises:
  "(\<exists>ds. fst (getAvailableScreens h w) = Inr ds) \<and>
   (\<forall>e w1. getAvailableScreens_body h w = (Inl e, w1) \<longrightarrow>
      getAvailableScreens h w =
        (Inr [main_display],
         w1\<lparr>events := events w1 @ [ConsoleError ''Error listing screens:'' e]\<rparr>) \<and>
      ((platform h = ''darwin'' \<and> execAsync h profiler_command 0 w = (Inl e, w1)) \<or>
       (platform h \<noteq> ''darwin'' \<and> platform h \<noteq> ''win32'' \<and> platform h \<noteq> ''linux'' \<and>
        e = unsupported_platform (platform h) \<and> w1 = w))) \<and>
   (\<forall>msg fs t displays.
      child h rescan_command Unbounded (files w) (now w) = (Inl msg, fs, t) \<longrightarrow>
      rescan_resolutions h displays w =
        (Inr displays,
         w\<lparr>files := fs, now := t,
           events := events w @
             [Exec rescan_command Unbounded,
              ConsoleError ''Error getting alternative screen info:'' (Error msg)]\<rparr>))"
proof (intro conjI allI impI)
  show "\<exists>ds. fst (getAvailableScreens h w) = Inr ds"
    by (simp add: getAvailableScreens_run split: prod.splits sum.splits)
next
  fix e w1
  assume "getAvailableScreens_body h w = (Inl e, w1)"
  then show "getAvailableScreens h w =
        (Inr [main_display],
         w1\<lparr>events := events w1 @ [ConsoleError ''Error listing screens:'' e]\<rparr>)"
    by (simp add: getAvailableScreens_run)
next
  fix e w1
  assume "getAvailableScreens_body h w = (Inl e, w1)"
  then show "(platform h = ''darwin'' \<and> execAsync h profiler_command 0 w = (Inl e, w1)) \<or>
       (platform h \<noteq> ''darwin'' \<and> platform h \<noteq> ''win32'' \<and> platform h \<noteq> ''linux'' \<and>
        e = unsupported_platform (platform h) \<and> w1 = w)"
    by (rule body_fails)
next
  fix msg fs t displays
  assume "child h rescan_command Unbounded (files w) (now w) = (Inl msg, fs, t)"
  then show "rescan_resolutions h displays w =
        (Inr displays,
         w\<lparr>files := fs, now := t,
           events := events w @
             [Exec rescan_command Unbounded,
              ConsoleError ''Error getting alternative screen info:'' (Error msg)]\<rparr>)"
    by (rule rescan_fail)
qed

theorem C6_enumerator_never_raises_witness:
  "getAvailableScreens_body (demo_host ''darwin'' (Inl ''spawn ENOENT'') (Inr []) Inr) idle_world =
     (Inl (Error ''spawn ENOENT''),
      idle_world\<lparr>events := [Exec profiler_command Unbounded]\<rparr>) \<and>
   getAvailableScreens (demo_host ''darwin'' (Inl ''spawn ENOENT'') (Inr []) Inr) idle_world =
     (Inr [main_display],
      idle_world\<lparr>events :=
        [Exec profiler_command Unbounded,
         ConsoleError ''Error listing screens:'' (Error ''spawn ENOENT'')]\<rparr>)"
proof -
  have body: "getAvailableScreens_body (demo_host ''darwin'' (Inl ''spawn ENOENT'') (Inr []) Inr)
      idle_world =
     (Inl (Error ''spawn ENOENT''), idle_world\<lparr>events := [Exec profiler_command Unbounded]\<rparr>)"
    by (simp add: getAvailableScreens_body_def darwin_screens_def io_bind_def execAsync_def
          demo_host_def idle_world_def exec_limit_def profiler_command_def)
  with C6_enumerator_never_raises [of "demo_host ''darwin'' (Inl ''spawn ENOENT'') (Inr []) Inr"
      idle_world]
  show ?thesis by (simp add: idle_world_def)
qed

text \<open>
  C6 as stated fails: when the second introspection command fails, the result is the list
  built from the section, here the one display LCD, not the descriptor Main Display.
\<close>

theorem C6_counterexample:
  "fst (getAvailableScreens
          (demo_host ''darwin'' (Inr ''Display Type: LCD'') (Inl ''Command failed'') Inr)
          idle_world) =
     Inr [\<lparr>screen_id = 1, description = ''LCD''\<rparr>] \<and>
   events (snd (getAvailableScreens
          (demo_host ''darwin'' (Inr ''Display Type: LCD'') (Inl ''Command failed'') Inr)
          idle_world)) =
     [Exec ''system_profiler SPDisplaysDataType'' Unbounded,
      Exec ''system_profiler SPDisplaysDataType | grep Resolution'' Unbounded,
      ConsoleError ''Error getting alternative screen info:'' (Error ''Command failed'')]"
  by code_simp

text \<open>
  C7, as the code has it. On \<^verbatim>\<open>darwin\<close>, after the first command has printed a text that is
  not blank: with no display section the single descriptor Main Display is returned at
  once, without a second command; with exactly one section the second command is run, and
  the list is rebuilt from its resolution lines when it succeeds with more than one such
  line, and kept otherwise (also when the second command fails); with more sections there
  is no second command. The rebuilt list numbers the lines from 1 and labels line 0
  "Main Display (resolution)" and every other line i "External Display i (resolution)".
\<close>

theorem C7_rescan_threshold:
  assumes "platform h = ''darwin''"
    and "execAsync h profiler_command 0 w = (Inr stdout, w1)"
    and "nonblank_sections stdout \<noteq> []"
  shows "(display_sections stdout = [] \<longrightarrow> getAvailableScreens h w = (Inr [main_display], w1)) \<and>
         (length (display_sections stdout) = 1 \<longrightarrow>
            (\<forall>e w2. execAsync h rescan_command 0 w1 = (Inl e, w2) \<longrightarrow>
               getAvailableScreens h w =
                 (Inr (section_displays (display_sections stdout)),
                  w2\<lparr>events := events w2 @
                     [ConsoleError ''Error getting alternative screen info:'' e]\<rparr>)) \<and>
            (\<forall>screenInfo w2. execAsync h rescan_command 0 w1 = (Inr screenInfo, w2) \<longrightarrow>
               getAvailableScreens h w =
                 (Inr (if length (resolution_lines screenInfo) > 1
                       then resolution_displays (resolution_lines screenInfo)
                       else section_displays (display_sections stdout)), w2))) \<and>
         (length (display_sections stdout) > 1 \<longrightarrow>
            getAvailableScreens h w = (Inr (section_displays (display_sections stdout)), w1)) \<and>
         (\<forall>rs. length (resolution_displays rs) = length rs \<and>
            (\<forall>i < length rs.
               resolution_displays rs ! i =
                 \<lparr>screen_id = int i + 1,
                  description =
                    (if i = 0 then ''Main Display ('' @ colon_field (rs ! i) [] @ '')''
                     else ''External Display '' @ show_nat i @ '' ('' @
                          colon_field (rs ! i) [] @ '')'')\<rparr>))"
proof -
  from assms(2) have run: "darwin_screens h w =
     (if nonblank_sections stdout = [] \<or> display_sections stdout = [] then (Inr [main_display], w1)
      else if length (display_sections stdout) \<le> 1
      then rescan_resolutions h (section_displays (display_sections stdout)) w1
      else (Inr (section_displays (display_sections stdout)), w1))"
    unfolding profiler_command_def by (rule darwin_screens_run)
  have zero: "display_sections stdout = [] \<longrightarrow> getAvailableScreens h w = (Inr [main_display], w1)"
    using run by (simp add: screens_darwin [OF assms(1)])
  have many: "length (display_sections stdout) > 1 \<longrightarrow>
      getAvailableScreens h w = (Inr (section_displays (display_sections stdout)), w1)"
    using run assms(3) by (auto simp: screens_darwin [OF assms(1)])
  have one: "length (display_sections stdout) = 1 \<Longrightarrow>
      darwin_screens h w = rescan_resolutions h (section_displays (display_sections stdout)) w1"
    using run assms(3) by auto
  have one_fail: "length (display_sections stdout) = 1 \<longrightarrow>
      (\<forall>e w2. execAsync h rescan_command 0 w1 = (Inl e, w2) \<longrightarrow>
         getAvailableScreens h w =
           (Inr (section_displays (display_sections stdout)),
            w2\<lparr>events := events w2 @
               [ConsoleError ''Error getting alternative screen info:'' e]\<rparr>))"
    by (auto simp: screens_darwin [OF assms(1)] one rescan_error)
  have one_ok: "length (display_sections stdout) = 1 \<longrightarrow>
      (\<forall>screenInfo w2. execAsync h rescan_command 0 w1 = (Inr screenInfo, w2) \<longrightarrow>
         getAvailableScreens h w =
           (Inr (if length (resolution_lines screenInfo) > 1
                 then resolution_displays (resolution_lines screenInfo)
                 else section_displays (display_sections stdout)), w2))"
    by (auto simp: screens_darwin [OF assms(1)] one rescan_run)
  have labels: "\<forall>rs. length (resolution_displays rs) = length rs \<and>
            (\<forall>i < length rs.
               resolution_displays rs ! i =
                 \<lparr>screen_id = int i + 1,
                  description =
                    (if i = 0 then ''Main Display ('' @ colon_field (rs ! i) [] @ '')''
                     else ''External Display '' @ show_nat i @ '' ('' @
                          colon_field (rs ! i) [] @ '')'')\<rparr>)"
    using resolution_displays_length resolution_displays_nth by blast
  from zero one_fail one_ok many labels show ?thesis by blast
qed

theorem C7_rescan_threshold_witness:
  "platform mac_two_resolutions = ''darwin'' \<and>
   length (display_sections ''Display Type: LCD'') = 1 \<and>
   length (resolution_lines ''Resolution: 1 x 1\<newline>Resolution: 2 x 2\<newline>'') = 2 \<and>
   fst (getAvailableScreens mac_two_resolutions idle_world) =
     Inr [\<lparr>screen_id = 1, description = ''Main Display (1 x 1)''\<rparr>,
          \<lparr>screen_id = 2, description = ''External Display 1 (2 x 2)''\<rparr>]"
proof -
  let ?w1 = "snd (execAsync mac_two_resolutions profiler_command 0 idle_world)"
  let ?w2 = "snd (execAsync mac_two_resolutions rescan_command 0 ?w1)"
  let ?info = "''Resolution: 1 x 1\<newline>Resolution: 2 x 2\<newline>''"
  have p: "platform mac_two_resolutions = ''darwin''"
    by (simp add: mac_two_resolutions_def demo_host_def)
  have "fst (execAsync mac_two_resolutions profiler_command 0 idle_world) = Inr ''Display Type: LCD''"
    by code_simp
  then have e1: "execAsync mac_two_resolutions profiler_command 0 idle_world =
      (Inr ''Display Type: LCD'', ?w1)"
    by (rule pair_fst_snd)
  have n: "nonblank_sections ''Display Type: LCD'' \<noteq> []"
    by code_simp
  have l: "length (display_sections ''Display Type: LCD'') = 1"
    by code_simp
  have "fst (execAsync mac_two_resolutions rescan_command 0 ?w1) = Inr ?info"
    by code_simp
  then have e2: "execAsync mac_two_resolutions rescan_command 0 ?w1 = (Inr ?info, ?w2)"
    by (rule pair_fst_snd)
  have r: "length (resolution_lines ?info) = 2"
    by code_simp
  have d: "resolution_displays (resolution_lines ?info) =
     [\<lparr>screen_id = 1, description = ''Main Display (1 x 1)''\<rparr>,
      \<lparr>screen_id = 2, description = ''External Display 1 (2 x 2)''\<rparr>]"
    by code_simp
  from C7_rescan_threshold [OF p e1 n] l e2
  have "getAvailableScreens mac_two_resolutions idle_world =
      (Inr (if length (resolution_lines ?info) > 1
            then resolution_displays (resolution_lines ?info)
            else section_displays (display_sections ''Display Type: LCD'')), ?w2)"
    by blast
  with r d p l show ?thesis by simp
qed

text \<open>
  C7 as stated fails: a profile whose resolution labels stand alone on their lines has no
  display section, since the labels are taken as separators; the parse yields no display,
  the second command would find two resolution lines, and yet no second command is run
  and the list is not rebuilt.
\<close>

theorem C7_counterexample:
  "display_sections (''Graphics/Displays:\<newline>'' @ two_resolutions) = [] \<and>
   length (resolution_lines two_resolutions) = 2 \<and>
   fst (getAvailableScreens mac_bare_labels idle_world) =
     Inr [\<lparr>screen_id = 1, description = ''Main Display''\<rparr>] \<and>
   events (snd (getAvailableScreens mac_bare_labels idle_world)) =
     [Exec ''system_profiler SPDisplaysDataType'' Unbounded] \<and>
   resolution_displays (resolution_lines two_resolutions) =
     [\<lparr>screen_id = 1, description = ''Main Display (1920 x 1080)''\<rparr>,
      \<lparr>screen_id = 2, description = ''External Display 1 (800 x 600)''\<rparr>]"
  by code_simp

text \<open>
  C8. An absent \<^verbatim>\<open>screenId\<close> is screen 1; an absent \<^verbatim>\<open>timeout\<close> and a \<^verbatim>\<open>timeout\<close> of 0 are
  the same call; the capture command is run with no limit in both cases and within the
  given number of milliseconds when the \<^verbatim>\<open>timeout\<close> is positive.
\<close>

theorem C8_defaults:
  "takeScreenshot h url (opts\<lparr>screenId := None\<rparr>) w =
     takeScreenshot h url (opts\<lparr>screenId := Some 1\<rparr>) w \<and>
   takeScreenshot h url (opts\<lparr>timeout := None\<rparr>) w =
     takeScreenshot h url (opts\<lparr>timeout := Some 0\<rparr>) w \<and>
   (\<forall>cmd w1.
      capture_command h (requested_screen opts) (screenshot_path h (now w)) w = (Inr cmd, w1) \<longrightarrow>
      (\<exists>rest. events (snd (takeScreenshot h url opts w)) =
         events w1 @
         Exec cmd (case timeout opts of None \<Rightarrow> Unbounded
                   | Some ms \<Rightarrow> if ms = 0 then Unbounded else Within ms) # rest))"
proof (intro conjI allI impI)
  show "takeScreenshot h url (opts\<lparr>screenId := None\<rparr>) w =
     takeScreenshot h url (opts\<lparr>screenId := Some 1\<rparr>) w"
    by (simp add: takeScreenshot_def takeScreenshot_body_def requested_screen_def
          timeout_or_zero_def)
next
  show "takeScreenshot h url (opts\<lparr>timeout := None\<rparr>) w =
     takeScreenshot h url (opts\<lparr>timeout := Some 0\<rparr>) w"
    by (simp add: takeScreenshot_def takeScreenshot_body_def requested_screen_def
          timeout_or_zero_def)
next
  fix cmd w1
  assume "capture_command h (requested_screen opts) (screenshot_path h (now w)) w = (Inr cmd, w1)"
  from take_events [OF this, of url]
  have "\<exists>rest. events (snd (takeScreenshot h url opts w)) =
         events w1 @ Exec cmd (exec_limit (timeout_or_zero opts)) # rest" .
  moreover have "exec_limit (timeout_or_zero opts) =
      (case timeout opts of None \<Rightarrow> Unbounded
       | Some ms \<Rightarrow> if ms = 0 then Unbounded else Within ms)"
    by (simp add: timeout_or_zero_def exec_limit_def split: option.splits)
  ultimately show "\<exists>rest. events (snd (takeScreenshot h url opts w)) =
         events w1 @
         Exec cmd (case timeout opts of None \<Rightarrow> Unbounded
                   | Some ms \<Rightarrow> if ms = 0 then Unbounded else Within ms) # rest"
    by (simp only:)
qed

theorem C8_defaults_witness:
  "(\<exists>rest. events (snd (takeScreenshot (linux_host Inr) [] plain_options idle_world)) =
      Exec (''import -window root '' @ dquote @ ''/tmp/screenshot-0.png'' @ dquote) Unbounded # rest) \<and>
   (\<exists>rest. events (snd (takeScreenshot (linux_host Inr) [] (plain_options\<lparr>timeout := Some 5000\<rparr>)
                idle_world)) =
      Exec (''import -window root '' @ dquote @ ''/tmp/screenshot-0.png'' @ dquote) (Within 5000) # rest)"
proof -
  let ?h = "linux_host Inr"
  let ?cmd = "''import -window root '' @ dquote @ ''/tmp/screenshot-0.png'' @ dquote"
  have p: "screenshot_path ?h (now idle_world) = ''/tmp/screenshot-0.png''"
    by code_simp
  have c: "capture_command ?h sid (screenshot_path ?h (now idle_world)) idle_world = (Inr ?cmd, idle_world)"
    for sid
    unfolding p by (simp add: capture_command_def linux_host_def demo_host_def io_return_def)
  have t: "timeout plain_options = None" "timeout (plain_options\<lparr>timeout := Some 5000\<rparr>) = Some 5000"
      "events idle_world = []"
    by (simp_all add: plain_options_def idle_world_def)
  from C8_defaults [of ?h "[]" plain_options idle_world] c
  have a: "\<exists>rest. events (snd (takeScreenshot ?h [] plain_options idle_world)) =
      events idle_world @
      Exec ?cmd (case timeout plain_options of None \<Rightarrow> Unbounded
                 | Some ms \<Rightarrow> if ms = 0 then Unbounded else Within ms) # rest"
    by blast
  from C8_defaults [of ?h "[]" "plain_options\<lparr>timeout := Some 5000\<rparr>" idle_world] c
  have b: "\<exists>rest. events (snd (takeScreenshot ?h [] (plain_options\<lparr>timeout := Some 5000\<rparr>) idle_world)) =
      events idle_world @
      Exec ?cmd (case timeout (plain_options\<lparr>timeout := Some 5000\<rparr>) of None \<Rightarrow> Unbounded
                 | Some ms \<Rightarrow> if ms = 0 then Unbounded else Within ms) # rest"
    by blast
  from a b show ?thesis unfolding t by simp
qed

text \<open>
  C9. The capture depends on the options \<^verbatim>\<open>screenId\<close> and \<^verbatim>\<open>timeout\<close> only: two calls whose
  options agree on these two fields, whatever their \<^verbatim>\<open>width\<close>, \<^verbatim>\<open>height\<close>, \<^verbatim>\<open>fullPage\<close>,
  \<^verbatim>\<open>waitForSelector\<close> and whatever the \<^verbatim>\<open>url\<close>, give the same result and leave the same world
  (the same commands run, the same resize decision, the same files).
\<close>

theorem C9_unused_options:
  "screenId o1 = screenId o2 \<Longrightarrow> timeout o1 = timeout o2 \<Longrightarrow>
     takeScreenshot h url1 o1 w = takeScreenshot h url2 o2 w"
  by (simp add: takeScreenshot_def takeScreenshot_body_def requested_screen_def
        timeout_or_zero_def)

theorem C9_unused_options_witness:
  "takeScreenshot (demo_host ''linux'' (Inr []) (Inr []) Inr) ''https://example.org''
     (plain_options\<lparr>width := Some 800, height := Some 600, fullPage := Some True,
        waitForSelector := Some ''#app''\<rparr>) idle_world =
   takeScreenshot (demo_host ''linux'' (Inr []) (Inr []) Inr) [] plain_options idle_world \<and>
   fst (takeScreenshot (demo_host ''linux'' (Inr []) (Inr []) Inr) [] plain_options idle_world) =
     Inr ''UE5H''"
proof -
  have "fst (takeScreenshot (demo_host ''linux'' (Inr []) (Inr []) Inr) [] plain_options idle_world) =
     Inr ''UE5H''"
    by code_simp
  with C9_unused_options [of "plain_options\<lparr>width := Some 800, height := Some 600,
        fullPage := Some True, waitForSelector := Some ''#app''\<rparr>" plain_options]
  show ?thesis
    by (simp add: plain_options_def)
qed

text \<open>
  C10. On every platform and on every outcome the enumerator returns a non-empty list, and
  every identifier in it is non-negative: on \<^verbatim>\<open>darwin\<close> the identifiers are 1, 2, ... in
  order, on \<^verbatim>\<open>win32\<close> and \<^verbatim>\<open>linux\<close> the single identifier is 0, and when the platform is
  not supported or the body of the enumerator fails the single identifier is 1.
\<close>

theorem C10_screens_non_empty:
  "\<exists>ds. fst (getAvailableScreens h w) = Inr ds \<and> ds \<noteq> [] \<and> (\<forall>d \<in> set ds. 0 \<le> screen_id d) \<and>
     (platform h = ''darwin'' \<longrightarrow> map screen_id ds = map int [1..<Suc (length ds)]) \<and>
     (platform h = ''win32'' \<or> platform h = ''linux'' \<longrightarrow> map screen_id ds = [0]) \<and>
     (platform h \<notin> {''darwin'', ''win32'', ''linux''} \<longrightarrow> map screen_id ds = [1]) \<and>
     ((\<exists>e. fst (getAvailableScreens_body h w) = Inl e) \<longrightarrow> map screen_id ds = [1])"
proof (cases "getAvailableScreens_body h w")
  case (Pair r w1)
  show ?thesis
  proof (cases r)
    case (Inl e)
    with Pair have "fst (getAvailableScreens h w) = Inr [main_display]"
      by (simp add: getAvailableScreens_run)
    moreover from Pair Inl have "platform h \<noteq> ''win32''" "platform h \<noteq> ''linux''"
      by (auto simp: getAvailableScreens_body_def io_return_def)
    ultimately show ?thesis
      by (auto simp: main_display_def)
  next
    case (Inr ds)
    with Pair have run: "fst (getAvailableScreens h w) = Inr ds"
      by (simp add: getAvailableScreens_run)
    from Pair Inr have body: "getAvailableScreens_body h w = (Inr ds, w1)" by simp
    show ?thesis
    proof (cases "platform h = ''darwin''")
      case True
      with body_numbered [OF body] have n: "numbered_from_one ds" by simp
      then have "\<forall>d \<in> set ds. 0 \<le> screen_id d" using numbered_nonneg by blast
      with n run True body show ?thesis
        by (auto simp: numbered_from_one_def)
    next
      case False
      with body_numbered [OF body]
      have "ds = [primary_screen]" "platform h = ''win32'' \<or> platform h = ''linux''" by auto
      with run False body show ?thesis
        by (auto simp: primary_screen_def)
    qed
  qed
qed

theorem C10_screens_non_empty_witness:
  "fst (getAvailableScreens (demo_host ''darwin'' (Inr ''Display Type: LCD'')
          (Inr ''Resolution: 1 x 1\<newline>Resolution: 2 x 2\<newline>'') Inr) idle_world) =
     Inr [\<lparr>screen_id = 1, description = ''Main Display (1 x 1)''\<rparr>,
          \<lparr>screen_id = 2, description = ''External Display 1 (2 x 2)''\<rparr>] \<and>
   platform (demo_host ''darwin'' (Inr ''Display Type: LCD'')
          (Inr ''Resolution: 1 x 1\<newline>Resolution: 2 x 2\<newline>'') Inr) = ''darwin'' \<and>
   list_all (\<lambda>d. 0 \<le> screen_id d)
     [\<lparr>screen_id = 1, description = ''Main Display (1 x 1)''\<rparr>,
      \<lparr>screen_id = 2, description = ''External Display 1 (2 x 2)''\<rparr>]"
proof -
  have run: "fst (getAvailableScreens (demo_host ''darwin'' (Inr ''Display Type: LCD'')
          (Inr ''Resolution: 1 x 1\<newline>Resolution: 2 x 2\<newline>'') Inr) idle_world) =
     Inr [\<lparr>screen_id = 1, description = ''Main Display (1 x 1)''\<rparr>,
          \<lparr>screen_id = 2, description = ''External Display 1 (2 x 2)''\<rparr>]"
    by code_simp
  show ?thesis
    using C10_screens_non_empty [of "demo_host ''darwin'' (Inr ''Display Type: LCD'')
          (Inr ''Resolution: 1 x 1\<newline>Resolution: 2 x 2\<newline>'') Inr" idle_world] run
    by (simp add: demo_host_def)
qed

end
